theory Spec2Isabelle
  imports Complex_Main "HOL-Library.AList"
begin

section \<open>Flash-sintering control engine\<close>

text \<open>
  A shallow embedding of the control engine of the flash-sintering application:
  \<^verbatim>\<open>config/settings.py\<close>, \<^verbatim>\<open>controllers/daq_keithley_controller.py\<close>,
  \<^verbatim>\<open>controllers/timer_manager.py\<close>, \<^verbatim>\<open>controllers/device_controller.py\<close> and
  \<^verbatim>\<open>controllers/main_controller.py\<close>.

  Conventions of the embedding.
  \<^item> Python floats are modelled as \<^typ>\<open>real\<close>: rounding is not modelled.
  \<^item> An object is a record, passed in and returned updated. A method that can raise
    returns \<open>(exn option, state)\<close>: \<open>None\<close> is a normal return, \<open>Some e\<close> is the
    exception \<open>e\<close> raised with the state as mutated up to the raise.
  \<^item> \<^verbatim>\<open>time.time()\<close> is the parameter \<open>now\<close>: one control tick (or one call of an
    operation) sees one clock reading.
  \<^item> The loggers are the list \<open>log\<close> of the device controller, newest entry first; the
    numbers formatted into a message are left out of its text, but a format that raises
    (\<^verbatim>\<open>f"{None:.2f}"\<close>) is modelled as the \<^verbatim>\<open>TypeError\<close> it is.
  \<^item> The instruments are handles that record what was written to them. A handle carries
    the outcomes of its next writes (\<open>True\<close>: the driver raises), so that every pattern
    of hardware failure is an input of the model.
\<close>

subsection \<open>config/settings.py\<close>

datatype stage = DWELL | INCUBATION | FLASH | HOLD | SHUTDOWN

fun STAGES :: "stage \<Rightarrow> nat" where
  "STAGES DWELL = 0"
| "STAGES INCUBATION = 1"
| "STAGES FLASH = 2"
| "STAGES HOLD = 3"
| "STAGES SHUTDOWN = 4"

text \<open>The key of \<open>STAGES\<close> that a stage number stands for (\<^verbatim>\<open>stage_names\<close> in the source).\<close>

fun stage_names :: "stage \<Rightarrow> string" where
  "stage_names DWELL = ''DWELL''"
| "stage_names INCUBATION = ''INCUBATION''"
| "stage_names FLASH = ''FLASH''"
| "stage_names HOLD = ''HOLD''"
| "stage_names SHUTDOWN = ''SHUTDOWN''"

definition TIMER_PERIODS :: "(string \<times> real) list" where
  "TIMER_PERIODS =
    [(''control'', 0.1), (''temperature'', 1.0),
     (''data_standard'', 0.1), (''data_flash'', 0.01),
     (''display_standard'', 0.5), (''display_flash'', 0.1),
     (''save_image_standard'', 1.0), (''save_image_flash'', 0.1),
     (''save_image_extended'', 0.05),
     (''show_image_standard'', 1.0), (''show_image_flash'', 0.1),
     (''show_image_extended'', 0.05)]"

definition STAGE_TIMER_CONFIGS :: "(string \<times> (string \<times> string) list) list" where
  "STAGE_TIMER_CONFIGS =
    [(''DWELL'', [(''data'', ''data_standard''), (''display'', ''display_standard''),
        (''save_image'', ''save_image_standard''), (''show_image'', ''show_image_standard'')]),
     (''INCUBATION'', [(''data'', ''data_standard''), (''display'', ''display_standard''),
        (''save_image'', ''save_image_standard''), (''show_image'', ''show_image_standard'')]),
     (''FLASH'', [(''data'', ''data_flash''), (''display'', ''display_flash''),
        (''save_image'', ''save_image_flash''), (''show_image'', ''show_image_flash'')]),
     (''HOLD'', [(''data'', ''data_flash''), (''display'', ''display_flash''),
        (''save_image'', ''save_image_flash''), (''show_image'', ''show_image_flash'')]),
     (''HOLD_EXTENDED'', [(''data'', ''data_flash''), (''display'', ''display_flash''),
        (''save_image'', ''save_image_extended''), (''show_image'', ''show_image_extended'')])]"

definition VOLTAGE_SCALE_OUTPUT :: real where
  "VOLTAGE_SCALE_OUTPUT = 60"

definition CURRENT_SCALE :: real where
  "CURRENT_SCALE = 0.4"

subsection \<open>Exceptions and instrument handles\<close>

datatype exn =
    RuntimeError string
  | ValueError string
  | TypeError
  | ZeroDivisionError
  | KeyError string
  | DriverError

text \<open>
  The analog-output task of the DAQ: the pairs \<open>[voltage, current]\<close> written so far
  (newest first) and the outcomes of the coming writes.
\<close>

record ao_handle =
  ao_written :: "(real \<times> real) list"
  ao_faults :: "bool list"

definition ao_write :: "real \<times> real \<Rightarrow> ao_handle \<Rightarrow> exn option \<times> ao_handle" where
  "ao_write p h =
    (case ao_faults h of
       [] \<Rightarrow> (None, h\<lparr>ao_written := p # ao_written h\<rparr>)
     | f # fs \<Rightarrow>
         (if f then (Some DriverError, h\<lparr>ao_faults := fs\<rparr>)
          else (None, h\<lparr>ao_written := p # ao_written h, ao_faults := fs\<rparr>)))"

text \<open>The commands the device controller sends to the source meter.\<close>

datatype scpi = SOUR_VOLT real | SOUR_CURR real | CURR real

record keithley_handle =
  k_written :: "scpi list"
  k_faults :: "bool list"

definition k_write :: "scpi \<Rightarrow> keithley_handle \<Rightarrow> exn option \<times> keithley_handle" where
  "k_write c h =
    (case k_faults h of
       [] \<Rightarrow> (None, h\<lparr>k_written := c # k_written h\<rparr>)
     | f # fs \<Rightarrow>
         (if f then (Some DriverError, h\<lparr>k_faults := fs\<rparr>)
          else (None, h\<lparr>k_written := c # k_written h, k_faults := fs\<rparr>)))"

subsection \<open>controllers/daq\_keithley\_controller.py: DAQController\<close>

text \<open>
  \<open>nidaqmx_available\<close> is the module's \<^verbatim>\<open>NIDAQMX_AVAILABLE\<close>; \<open>ao_task\<close> is \<open>None\<close>
  when the task was never created. The controller's own logger is not modelled.
\<close>

record daq_controller =
  nidaqmx_available :: bool
  ao_task :: "ao_handle option"

definition daq_set_outputs ::
  "real \<Rightarrow> real \<Rightarrow> daq_controller \<Rightarrow> exn option \<times> daq_controller" where
  "daq_set_outputs voltage current d =
    (case (if nidaqmx_available d then ao_task d else None) of
       None \<Rightarrow> (Some (RuntimeError ''DAQ not available - cannot set outputs''), d)
     | Some task \<Rightarrow>
         (if \<not> (0 \<le> voltage \<and> voltage \<le> 300)
          then (Some (ValueError ''Voltage exceeds 0-300V range''), d)
          else if \<not> (0 \<le> current \<and> current \<le> 2000)
          then (Some (ValueError ''Current exceeds 0-2000mA range''), d)
          else
            (let voltage_scaled = voltage / VOLTAGE_SCALE_OUTPUT;
                 current_scaled = current / (CURRENT_SCALE * 1000)
             in case ao_write (voltage_scaled, current_scaled) task of
                  (r, task') \<Rightarrow> (r, d\<lparr>ao_task := Some task'\<rparr>))))"

subsection \<open>controllers/timer\_manager.py: TimerManager\<close>

text \<open>
  The callbacks registered by \<^verbatim>\<open>MainController.setup_timers\<close>, by name; what a callback
  does is given to the timer loop as a function of the world it runs in.
\<close>

datatype callback =
    control_timer_callback
  | data_timer_callback
  | display_timer_callback
  | temperature_timer_callback

text \<open>
  A thread object: the timer it runs and whether its loop is running. A thread started
  while \<open>running\<close> is clear leaves its loop at the first check and is not alive.
\<close>

datatype thread = Thread (thread_target: string) (is_alive: bool)

text \<open>The three dictionaries keep Python's insertion order: association lists.\<close>

record timer_manager =
  timers :: "(string \<times> real) list"
  running :: bool
  threads :: "(string \<times> thread option) list"
  callbacks :: "(string \<times> callback) list"

definition TimerManager_init :: timer_manager where
  "TimerManager_init = \<lparr>timers = [], running = False, threads = [], callbacks = []\<rparr>"

definition add_timer :: "string \<Rightarrow> real \<Rightarrow> callback \<Rightarrow> timer_manager \<Rightarrow> timer_manager" where
  "add_timer name period cb tm =
    tm\<lparr>timers := AList.update name period (timers tm),
       callbacks := AList.update name cb (callbacks tm),
       threads := AList.update name None (threads tm)\<rparr>"

definition start_timer :: "string \<Rightarrow> timer_manager \<Rightarrow> exn option \<times> timer_manager" where
  "start_timer name tm =
    (case map_of (timers tm) name of
       None \<Rightarrow> (Some (ValueError ''Timer not found''), tm)
     | Some _ \<Rightarrow>
         (case map_of (threads tm) name of
            None \<Rightarrow> (Some (KeyError name), tm)
          | Some None \<Rightarrow>
              (None, tm\<lparr>threads := AList.update name (Some (Thread name (running tm))) (threads tm)\<rparr>)
          | Some (Some th) \<Rightarrow>
              (if \<not> is_alive th
               then (None, tm\<lparr>threads := AList.update name (Some (Thread name (running tm))) (threads tm)\<rparr>)
               else (None, tm))))"

text \<open>
  \<^verbatim>\<open>join()\<close> returns once the thread's loop has ended; the handle is dropped right after,
  so the model only clears the slot.
\<close>

definition stop_timer :: "string \<Rightarrow> timer_manager \<Rightarrow> timer_manager" where
  "stop_timer name tm =
    (case map_of (threads tm) name of
       Some (Some th) \<Rightarrow>
         (tm\<lparr>running := False\<rparr>)\<lparr>threads := AList.update name None (threads tm)\<rparr>
     | _ \<Rightarrow> tm)"

fun start_timers :: "string list \<Rightarrow> timer_manager \<Rightarrow> exn option \<times> timer_manager" where
  "start_timers [] tm = (None, tm)"
| "start_timers (name # names) tm =
    (case start_timer name tm of
       (Some e, tm') \<Rightarrow> (Some e, tm')
     | (None, tm') \<Rightarrow> start_timers names tm')"

definition start_all :: "timer_manager \<Rightarrow> exn option \<times> timer_manager" where
  "start_all tm = start_timers (map fst (timers tm)) (tm\<lparr>running := True\<rparr>)"

definition stop_all :: "timer_manager \<Rightarrow> timer_manager" where
  "stop_all tm =
    tm\<lparr>running := False,
       threads := map (\<lambda>(name, th). (name, None)) (threads tm)\<rparr>"

definition update_period :: "string \<Rightarrow> real \<Rightarrow> timer_manager \<Rightarrow> timer_manager" where
  "update_period name new_period tm =
    (case map_of (timers tm) name of
       Some _ \<Rightarrow> tm\<lparr>timers := AList.update name new_period (timers tm)\<rparr>
     | None \<Rightarrow> tm)"

text \<open>
  The world one timer thread runs in: the wall clock, the manager it reads on every
  iteration, what it printed, and the rest of the application, which only the callbacks
  touch. A callback may advance the clock (it takes time) and may change the manager.
\<close>

record 'a world =
  clock :: real
  manager :: timer_manager
  stdout :: "(string \<times> exn) list"
  app :: 'a

definition time_sleep :: "real \<Rightarrow> 'a world \<Rightarrow> 'a world" where
  "time_sleep d w = w\<lparr>clock := clock w + d\<rparr>"

definition run_callback ::
  "(callback \<Rightarrow> 'a world \<Rightarrow> exn option \<times> 'a world) \<Rightarrow> string \<Rightarrow> 'a world \<Rightarrow> 'a world" where
  "run_callback run name w =
    (case map_of (callbacks (manager w)) name of
       None \<Rightarrow> w\<lparr>stdout := (name, KeyError name) # stdout w\<rparr>
     | Some cb \<Rightarrow>
         (case run cb w of
            (None, w') \<Rightarrow> w'
          | (Some e, w') \<Rightarrow> w'\<lparr>stdout := (name, e) # stdout w'\<rparr>))"

text \<open>One pass through the body of the \<^verbatim>\<open>while self.running\<close> loop.\<close>

definition timer_iteration ::
  "(callback \<Rightarrow> 'a world \<Rightarrow> exn option \<times> 'a world) \<Rightarrow> string \<Rightarrow> 'a world
    \<Rightarrow> exn option \<times> 'a world" where
  "timer_iteration run name w =
    (let start_time = clock w;
         w1 = run_callback run name w;
         elapsed = clock w1 - start_time
     in case map_of (timers (manager w1)) name of
          None \<Rightarrow> (Some (KeyError name), w1)
        | Some period \<Rightarrow>
            (let sleep_time = max 0 (period - elapsed)
             in (None, if sleep_time > 0 then time_sleep sleep_time w1 else w1)))"

text \<open>
  The loop runs for as long as \<open>running\<close> is set, possibly forever: the model gives
  it fuel, one unit per iteration, and \<open>None\<close> is "still running when the fuel is out".
\<close>

fun timer_loop ::
  "nat \<Rightarrow> (callback \<Rightarrow> 'a world \<Rightarrow> exn option \<times> 'a world) \<Rightarrow> string \<Rightarrow> 'a world
    \<Rightarrow> (exn option \<times> 'a world) option" where
  "timer_loop fuel run name w =
    (if \<not> running (manager w) then Some (None, w)
     else case fuel of
       0 \<Rightarrow> None
     | Suc n \<Rightarrow>
         (case timer_iteration run name w of
            (Some e, w') \<Rightarrow> Some (Some e, w')
          | (None, w') \<Rightarrow> timer_loop n run name w'))"

declare timer_loop.simps [simp del]

subsection \<open>controllers/device\_controller.py: DeviceController\<close>

datatype level = DEBUG | INFO | WARNING | ERROR

datatype mode = CV | CC

text \<open>
  The attributes of a \<^verbatim>\<open>DeviceController\<close>. \<open>pyvisa_available\<close> is the module's
  \<^verbatim>\<open>PYVISA_AVAILABLE\<close>. An attribute the source tests with \<^verbatim>\<open>is None\<close> or
  \<^verbatim>\<open>hasattr\<close> is an option: \<open>last_flash_log_time\<close>, \<open>last_hold_log_time\<close> and
  \<open>timer_manager\<close> are \<open>None\<close> until the attribute is first assigned.
\<close>

record device_controller =
  log :: "(level \<times> string) list"
  daq_controller :: daq_controller
  pyvisa_available :: bool
  keithley :: "keithley_handle option"
  is_running :: bool
  current_stage :: stage
  sub_stage :: int
  start_time :: real
  flash_start_time :: "real option"
  hold_start_time :: real
  stage_2_time :: real
  temperature_reached :: bool
  power_supply_mode :: mode
  cv_cc_transition_time :: "real option"
  voltage_before_cc :: "real option"
  current_limit_reached :: bool
  last_voltage :: real
  last_current :: real
  last_temperature :: real
  voltage_limit :: real
  current_limit :: real
  hold_time_limit :: real
  hold_elapsed_time :: real
  experiment_stopped_by_hold_time :: bool
  last_flash_log_time :: "real option"
  last_hold_log_time :: "real option"
  timer_manager :: "timer_manager option"

text \<open>
  \<^verbatim>\<open>__init__\<close>, given what \<^verbatim>\<open>initialize_devices\<close> found: the DAQ controller and the
  handle of the source meter.
\<close>

definition DeviceController_init ::
  "daq_controller \<Rightarrow> bool \<Rightarrow> keithley_handle option \<Rightarrow> device_controller" where
  "DeviceController_init daq pyvisa k =
    \<lparr>log = [], daq_controller = daq, pyvisa_available = pyvisa, keithley = k,
     is_running = False, current_stage = DWELL, sub_stage = 0, start_time = 0,
     flash_start_time = Some 0, hold_start_time = 0, stage_2_time = 0,
     temperature_reached = False, power_supply_mode = CV, cv_cc_transition_time = None,
     voltage_before_cc = None, current_limit_reached = False, last_voltage = 0,
     last_current = 0, last_temperature = 0, voltage_limit = 0, current_limit = 0,
     hold_time_limit = 60, hold_elapsed_time = 0, experiment_stopped_by_hold_time = False,
     last_flash_log_time = None, last_hold_log_time = None, timer_manager = None\<rparr>"

definition logger :: "level \<Rightarrow> string \<Rightarrow> device_controller \<Rightarrow> device_controller" where
  "logger lvl msg s = s\<lparr>log := (lvl, msg) # log s\<rparr>"

text \<open>Python's truth value of a float that may be \<^verbatim>\<open>None\<close>: neither \<^verbatim>\<open>None\<close> nor zero.\<close>

fun truthy :: "real option \<Rightarrow> bool" where
  "truthy None = False"
| "truthy (Some x) = (x \<noteq> 0)"

text \<open>Sequencing of calls that may raise, and \<^verbatim>\<open>try: ... except Exception\<close>.\<close>

definition and_then ::
  "exn option \<times> 's \<Rightarrow> ('s \<Rightarrow> exn option \<times> 's) \<Rightarrow> exn option \<times> 's" where
  "and_then r f = (case r of (Some e, s) \<Rightarrow> (Some e, s) | (None, s) \<Rightarrow> f s)"

definition try_except ::
  "exn option \<times> 's \<Rightarrow> (exn \<Rightarrow> 's \<Rightarrow> exn option \<times> 's) \<Rightarrow> exn option \<times> 's" where
  "try_except r handler = (case r of (Some e, s) \<Rightarrow> handler e s | (None, s) \<Rightarrow> (None, s))"

subsubsection \<open>Measurements\<close>

text \<open>
  What the instruments answer on one tick: the samples the DAQ task returns (\<open>None\<close>:
  the driver raised) and the outcome of the dialogue with the source meter (status check,
  reconfiguration, \<^verbatim>\<open>MEAS:CURR?\<close>): the current in microamperes, or \<open>None\<close> when any
  step of it failed.
\<close>

record instruments =
  daq_samples :: "real list option"
  keithley_ua :: "real option"

definition read_sample_voltage_improved ::
  "real \<Rightarrow> real \<Rightarrow> instruments \<Rightarrow> device_controller \<Rightarrow> real \<times> device_controller" where
  "read_sample_voltage_improved daq_range actual_range env s =
    (case daq_samples env of
       None \<Rightarrow> (0.0, logger ERROR ''Error during voltage measurement'' s)
     | Some voltage_raw \<Rightarrow>
         (if voltage_raw = [] \<or> daq_range = 0
          then (0.0, logger ERROR ''Error during voltage measurement'' s)
          else
            (let voltage_mean = sum_list voltage_raw / real (length voltage_raw);
                 voltage = (actual_range / daq_range) * voltage_mean
             in (voltage, logger DEBUG ''[DAQ] Raw, Mean, Scaled'' s))))"

definition read_keithley_current_improved ::
  "instruments \<Rightarrow> device_controller \<Rightarrow> real option \<times> device_controller" where
  "read_keithley_current_improved env s =
    (case (if pyvisa_available s then keithley s else None) of
       None \<Rightarrow> (None, logger ERROR ''Keithley not available'' s)
     | Some k \<Rightarrow>
         (case keithley_ua env of
            None \<Rightarrow> (None, logger ERROR ''Error reading Keithley current'' s)
          | Some current_ua \<Rightarrow>
              (Some (current_ua / 1000.0), logger DEBUG ''[Keithley] Current'' s)))"

text \<open>
  \<^verbatim>\<open>get_measurements\<close>: neither read raises, so the \<^verbatim>\<open>except\<close> branch that returns
  \<^verbatim>\<open>(None, None, None)\<close> is never taken; the voltage and the temperature are always
  present, the current is \<open>None\<close> when its read failed.
\<close>

definition get_measurements ::
  "instruments \<Rightarrow> device_controller
    \<Rightarrow> (real option \<times> real option \<times> real option) \<times> device_controller" where
  "get_measurements env s =
    (case read_sample_voltage_improved 5.0 300.0 env s of
       (voltage, s1) \<Rightarrow>
         (case read_keithley_current_improved env s1 of
            (current, s2) \<Rightarrow>
              (let temperature = last_temperature s2
               in ((Some voltage, current, Some temperature), s2))))"

subsubsection \<open>Outputs, limits, start and stop\<close>

definition set_outputs ::
  "real \<Rightarrow> real \<Rightarrow> device_controller \<Rightarrow> exn option \<times> device_controller" where
  "set_outputs voltage current s =
    try_except
      (case daq_set_outputs voltage current (daq_controller s) of
         (Some e, d) \<Rightarrow> (Some e, s\<lparr>daq_controller := d\<rparr>)
       | (None, d) \<Rightarrow>
           (let s1 = logger DEBUG ''Set DAQ outputs'' (s\<lparr>daq_controller := d\<rparr>)
            in case (if pyvisa_available s1 then keithley s1 else None) of
                 None \<Rightarrow> (None, s1)
               | Some k \<Rightarrow>
                   (case k_write (SOUR_VOLT voltage) k of
                      (Some e, k1) \<Rightarrow> (Some e, s1\<lparr>keithley := Some k1\<rparr>)
                    | (None, k1) \<Rightarrow>
                        (case k_write (SOUR_CURR (current / 1000.0)) k1 of
                           (Some e, k2) \<Rightarrow> (Some e, s1\<lparr>keithley := Some k2\<rparr>)
                         | (None, k2) \<Rightarrow>
                             (None, logger DEBUG ''Set Keithley outputs''
                                      (s1\<lparr>keithley := Some k2\<rparr>))))))
      (\<lambda>e s'. (Some e, logger ERROR ''Error setting outputs'' s'))"

definition set_voltage_current_limits ::
  "real \<Rightarrow> real \<Rightarrow> device_controller \<Rightarrow> bool \<times> device_controller" where
  "set_voltage_current_limits voltage current s =
    (let s1 = s\<lparr>voltage_limit := voltage, current_limit := current\<rparr>;
         s2 = logger INFO ''Set voltage limit, current limit (not applied yet)'' s1;
         s3 = s2\<lparr>last_voltage := voltage, last_current := current\<rparr>
     in (True, s3))"

definition apply_voltage_current_limits :: "device_controller \<Rightarrow> bool \<times> device_controller" where
  "apply_voltage_current_limits s =
    (case daq_set_outputs (voltage_limit s) (current_limit s) (daq_controller s) of
       (Some e, d) \<Rightarrow>
         (False, logger ERROR ''Error applying voltage/current limits'' (s\<lparr>daq_controller := d\<rparr>))
     | (None, d) \<Rightarrow>
         (let s1 = logger INFO ''Applied voltage limit, current limit'' (s\<lparr>daq_controller := d\<rparr>)
          in case (if pyvisa_available s1 then keithley s1 else None) of
               None \<Rightarrow> (True, s1)
             | Some k \<Rightarrow>
                 (let current_amps = current_limit s1 / 1000.0
                  in case k_write (CURR current_amps) k of
                       (Some e, k1) \<Rightarrow>
                         (False, logger ERROR ''Error applying voltage/current limits''
                                   (s1\<lparr>keithley := Some k1\<rparr>))
                     | (None, k1) \<Rightarrow>
                         (True, logger INFO ''Applied current limit to Keithley''
                                  (s1\<lparr>keithley := Some k1\<rparr>)))))"

definition reset_cv_cc_tracking :: "device_controller \<Rightarrow> device_controller" where
  "reset_cv_cc_tracking s =
    logger INFO ''Reset CV/CC tracking - starting in CV mode''
      (s\<lparr>power_supply_mode := CV, cv_cc_transition_time := None,
         voltage_before_cc := None, current_limit_reached := False\<rparr>)"

text \<open>
  \<^verbatim>\<open>start_process\<close>; \<open>daq_connected\<close> and \<open>keithley_connected\<close> are what
  \<^verbatim>\<open>check_device_connections\<close> reports. Nothing inside the \<^verbatim>\<open>try\<close> raises (the two
  limit methods catch their own errors), so its \<^verbatim>\<open>except\<close> branch is never taken.
\<close>

definition start_process ::
  "bool \<Rightarrow> bool \<Rightarrow> real \<Rightarrow> real \<Rightarrow> real \<Rightarrow> device_controller
    \<Rightarrow> exn option \<times> device_controller" where
  "start_process daq_connected keithley_connected now voltage current s =
    (if \<not> daq_connected then (Some (RuntimeError ''DAQ not connected''), s)
     else if \<not> keithley_connected then (Some (RuntimeError ''Keithley not connected''), s)
     else
       (let s1 = logger INFO ''Starting process'' s;
            s2 = s1\<lparr>is_running := True, start_time := now, current_stage := DWELL\<rparr>;
            s3 = reset_cv_cc_tracking s2;
            s4 = s3\<lparr>experiment_stopped_by_hold_time := False\<rparr>;
            s5 = snd (set_voltage_current_limits voltage current s4);
            s6 = snd (apply_voltage_current_limits s5)
        in (None, logger INFO ''Process started (CV mode)'' s6)))"

definition stop_process :: "device_controller \<Rightarrow> exn option \<times> device_controller" where
  "stop_process s =
    try_except
      (let s1 = logger INFO ''Stopping process'' s;
           s2 = s1\<lparr>is_running := False\<rparr>
       in set_outputs 0 0 s2)
      (\<lambda>e s'. (None, logger ERROR ''Error stopping process'' s'))"

subsubsection \<open>The CV/CC detector\<close>

definition detect_cv_cc_transition ::
  "real \<Rightarrow> real \<Rightarrow> real \<Rightarrow> real \<Rightarrow> device_controller \<Rightarrow> bool \<times> device_controller" where
  "detect_cv_cc_transition now voltage current climit s =
    (let cv_cc_threshold = 0.95
     in if power_supply_mode s = CV \<and> current \<ge> cv_cc_threshold * climit
        then
          (let s1 = s\<lparr>power_supply_mode := CC, cv_cc_transition_time := Some now,
                      voltage_before_cc := Some voltage, current_limit_reached := True\<rparr>;
               s2 = logger INFO ''Power supply CV->CC transition detected!'' s1;
               s3 = logger INFO ''Voltage before CC'' s2;
               s4 = logger INFO ''Current at transition'' s3
           in (True, s4))
        else if power_supply_mode s = CC \<and> current < 0.8 * climit
        then
          (let s1 = s\<lparr>power_supply_mode := CV, current_limit_reached := False\<rparr>;
               s2 = logger INFO ''Power supply CC->CV transition detected!'' s1;
               s3 = logger INFO ''Current dropped to'' s2
           in (True, s3))
        else (False, s))"

subsubsection \<open>Timer periods per stage\<close>

text \<open>One pass of the loop over \<^verbatim>\<open>config.items()\<close>.\<close>

definition update_timer_period ::
  "string \<times> string \<Rightarrow> device_controller \<Rightarrow> device_controller" where
  "update_timer_period item s =
    (case item of (timer_name, period_key) \<Rightarrow>
       (case timer_manager s of
          None \<Rightarrow> s
        | Some tm \<Rightarrow>
            (case (map_of TIMER_PERIODS period_key, map_of (timers tm) timer_name) of
               (Some new_period, Some _) \<Rightarrow>
                 logger DEBUG ''Updated timer period''
                   (s\<lparr>timer_manager := Some (update_period timer_name new_period tm)\<rparr>)
             | _ \<Rightarrow> s)))"

definition update_timer_periods_for_stage :: "stage \<Rightarrow> device_controller \<Rightarrow> device_controller" where
  "update_timer_periods_for_stage stg s =
    (case timer_manager s of
       None \<Rightarrow> s
     | Some _ \<Rightarrow>
         (let stage_name = stage_names stg;
              s1 = (case map_of STAGE_TIMER_CONFIGS stage_name of
                      Some config \<Rightarrow> fold update_timer_period config s
                    | None \<Rightarrow> s)
          in logger DEBUG ''Updated timer periods for stage'' s1))"

definition update_timer_periods_for_substage :: "int \<Rightarrow> device_controller \<Rightarrow> device_controller" where
  "update_timer_periods_for_substage sub s =
    (case timer_manager s of
       None \<Rightarrow> s
     | Some _ \<Rightarrow>
         (let s1 = (if sub = 1 \<and> current_stage s = HOLD
                    then (case map_of STAGE_TIMER_CONFIGS ''HOLD_EXTENDED'' of
                            Some config \<Rightarrow> fold update_timer_period config s
                          | None \<Rightarrow> s)
                    else s)
          in logger DEBUG ''Updated timer periods for sub-stage'' s1))"

subsubsection \<open>The stage machine: update\_stage\<close>

text \<open>
  The five branches of \<^verbatim>\<open>update_stage\<close>, one definition each. \<open>climit\<close> is the
  parameter \<^verbatim>\<open>current_limit\<close> of \<^verbatim>\<open>update_stage\<close> (the attribute of the same name is
  the record field).
\<close>

text \<open>Stage 0.\<close>

definition dwell_stage ::
  "real \<Rightarrow> real \<Rightarrow> real option \<Rightarrow> real option \<Rightarrow> device_controller
    \<Rightarrow> exn option \<times> device_controller" where
  "dwell_stage current_time dwell_time target_temperature temperature s =
    (let check_dwell_time = (\<lambda>s1.
           if current_time > dwell_time
           then
             (let s2 = s1\<lparr>current_stage := INCUBATION, sub_stage := 0\<rparr>;
                  s3 = logger INFO ''Entering incubation stage (j=1)'' s2
              in (None, update_timer_periods_for_stage INCUBATION s3))
           else (None, s1))
     in if truthy target_temperature \<and> \<not> temperature_reached s
        then
          (if (case (temperature, target_temperature) of
                 (Some t, Some target) \<Rightarrow> t \<noteq> 0 \<and> t \<ge> target
               | _ \<Rightarrow> False)
           then check_dwell_time
                  (logger INFO ''Target temperature reached'' (s\<lparr>temperature_reached := True\<rparr>))
           else (None, s))
        else check_dwell_time s)"

text \<open>Stage 1. The state is updated before the messages are formatted.\<close>

definition incubation_stage ::
  "real \<Rightarrow> real option \<Rightarrow> real option \<Rightarrow> real \<Rightarrow> device_controller
    \<Rightarrow> exn option \<times> device_controller" where
  "incubation_stage now voltage current climit s =
    (if power_supply_mode s = CC \<and>
        (case cv_cc_transition_time s of
           None \<Rightarrow> False
         | Some t \<Rightarrow> t \<noteq> 0 \<and> now - t < 1.0)
     then
       (let s1 = s\<lparr>current_stage := FLASH, flash_start_time := Some now,
                   stage_2_time := now, sub_stage := 0\<rparr>;
            s2 = logger INFO ''Entering flash stage (j=2) - triggered by CV->CC transition'' s1
        in case (voltage_before_cc s2, voltage) of
             (Some vb, Some v) \<Rightarrow>
               (let s3 = logger INFO ''Flash onset: V dropped'' s2;
                    s4 = logger INFO ''Flash start time set'' s3
                in (None, update_timer_periods_for_stage FLASH s4))
           | _ \<Rightarrow> (Some TypeError, s2))
     else if (case current of None \<Rightarrow> False | Some c \<Rightarrow> c \<noteq> 0 \<and> c > 0.9 * climit)
     then
       (let s1 = s\<lparr>current_stage := FLASH, flash_start_time := Some now,
                   stage_2_time := now, sub_stage := 0\<rparr>;
            s2 = logger INFO ''Entering flash stage (j=2) - traditional current threshold'' s1;
            s3 = logger INFO ''Flash start time set'' s2
        in (None, update_timer_periods_for_stage FLASH s3))
     else (None, s))"

text \<open>Stage 2.\<close>

definition flash_stage ::
  "real \<Rightarrow> real option \<Rightarrow> real \<Rightarrow> device_controller \<Rightarrow> exn option \<times> device_controller" where
  "flash_stage now current climit s =
    and_then
      (case last_flash_log_time s of
         None \<Rightarrow> (None, s\<lparr>last_flash_log_time := Some now\<rparr>)
       | Some t \<Rightarrow>
           (if now - t \<ge> 2.0
            then
              (case current of
                 None \<Rightarrow> (Some TypeError, s)
               | Some c \<Rightarrow>
                   (if climit = 0 then (Some ZeroDivisionError, s)
                    else (None, (logger INFO ''FLASH stage: elapsed, mode, current'' s)
                                  \<lparr>last_flash_log_time := Some now\<rparr>)))
            else (None, s)))
      (\<lambda>s1.
         if power_supply_mode s1 = CC \<and> current_limit_reached s1 \<and>
            (case current of None \<Rightarrow> False | Some c \<Rightarrow> c \<noteq> 0 \<and> c \<ge> 0.95 * climit)
         then
           (let s2 = s1\<lparr>current_stage := HOLD, hold_start_time := now, sub_stage := 0\<rparr>;
                s3 = logger INFO ''Entering hold stage (j=3) - CC mode stabilized'' s2;
                s4 = logger INFO ''Current stabilized in CC mode'' s3
            in case flash_start_time s4 of
                 None \<Rightarrow> (Some TypeError, s4)
               | Some t0 \<Rightarrow>
                   (let s5 = logger INFO ''Flash stage completed'' s4
                    in (None, logger INFO ''Starting hold time countdown'' s5)))
         else (None, s1))"

text \<open>
  Stage 3. \<open>t0\<close> is \<^verbatim>\<open>self.flash_start_time\<close> after the safety check that replaces a
  \<^verbatim>\<open>None\<close> by \<^verbatim>\<open>hold_start_time\<close>.
\<close>

definition hold_stage ::
  "real \<Rightarrow> real \<Rightarrow> device_controller \<Rightarrow> exn option \<times> device_controller" where
  "hold_stage now hold_time s =
    (let s1 = s\<lparr>hold_time_limit := hold_time\<rparr>;
         s2 = (case flash_start_time s1 of
                 None \<Rightarrow>
                   (logger WARNING ''flash_start_time not set, using hold_start_time as fallback'' s1)
                     \<lparr>flash_start_time := Some (hold_start_time s1)\<rparr>
               | Some _ \<Rightarrow> s1);
         t0 = (case flash_start_time s2 of Some t \<Rightarrow> t | None \<Rightarrow> hold_start_time s2);
         s3 = s2\<lparr>hold_elapsed_time := now - t0\<rparr>;
         s4 = (case last_hold_log_time s3 of
                 None \<Rightarrow> s3\<lparr>last_hold_log_time := Some now\<rparr>
               | Some t \<Rightarrow>
                   (if now - t \<ge> 2.0
                    then (logger INFO ''HOLD stage: elapsed / limit'' s3)
                           \<lparr>last_hold_log_time := Some now\<rparr>
                    else s3))
     in if hold_elapsed_time s4 \<ge> hold_time_limit s4
        then
          (let s5 = logger INFO ''Hold time limit reached. Stopping experiment automatically.'' s4;
               s6 = logger INFO ''Hold elapsed time'' s5;
               s7 = logger INFO
                      ''CV->CC transition hold time completed - experiment terminating as requested''
                      s6
           in and_then (set_outputs 0 0 s7)
                (\<lambda>s8. and_then (stop_process s8)
                   (\<lambda>s9. (None, s9\<lparr>experiment_stopped_by_hold_time := True\<rparr>))))
        else
          (let hold_elapsed = now - hold_start_time s4
           in if hold_elapsed > 30 \<and> sub_stage s4 = 0
              then
                (let s5 = s4\<lparr>sub_stage := 1\<rparr>;
                     s6 = logger INFO ''Entering hold sub-stage (k=1)'' s5
                 in (None, update_timer_periods_for_substage (sub_stage s6) s6))
              else (None, s4)))"

text \<open>Stage 4.\<close>

definition shutdown_stage ::
  "real \<Rightarrow> real \<Rightarrow> device_controller \<Rightarrow> exn option \<times> device_controller" where
  "shutdown_stage now hold_current s =
    (let shutdown_elapsed = now - hold_start_time s
     in if shutdown_elapsed > hold_current + 10
        then stop_process (logger INFO ''Extended acquisition complete, stopping process'' s)
        else (None, s))"

text \<open>
  \<^verbatim>\<open>update_stage\<close> after the measurements have been read: first the detector, which runs
  when both readings are present, then the branch of the current stage.
\<close>

definition detect_step ::
  "real option \<times> real option \<times> real option \<Rightarrow> real \<Rightarrow> real \<Rightarrow> device_controller
    \<Rightarrow> device_controller" where
  "detect_step measurements now climit s =
    (case measurements of
       (Some v, Some c, temperature) \<Rightarrow>
         (case detect_cv_cc_transition now v c climit s of
            (cv_cc_transition, s') \<Rightarrow>
              (if cv_cc_transition then logger DEBUG ''Power supply mode'' s' else s'))
     | _ \<Rightarrow> s)"

definition update_stage_on ::
  "real option \<times> real option \<times> real option \<Rightarrow> real \<Rightarrow> real \<Rightarrow> real \<Rightarrow> real \<Rightarrow> real
    \<Rightarrow> real option \<Rightarrow> device_controller \<Rightarrow> exn option \<times> device_controller" where
  "update_stage_on measurements now dwell_time hold_current climit hold_time
      target_temperature s =
    (case measurements of (voltage, current, temperature) \<Rightarrow>
       (let current_time = now - start_time s;
            s1 = detect_step measurements now climit s
        in case current_stage s1 of
             DWELL \<Rightarrow> dwell_stage current_time dwell_time target_temperature temperature s1
           | INCUBATION \<Rightarrow> incubation_stage now voltage current climit s1
           | FLASH \<Rightarrow> flash_stage now current climit s1
           | HOLD \<Rightarrow> hold_stage now hold_time s1
           | SHUTDOWN \<Rightarrow> shutdown_stage now hold_current s1))"

definition update_stage ::
  "instruments \<Rightarrow> real \<Rightarrow> real \<Rightarrow> real \<Rightarrow> real \<Rightarrow> real \<Rightarrow> real option
    \<Rightarrow> device_controller \<Rightarrow> exn option \<times> device_controller" where
  "update_stage env now dwell_time hold_current climit hold_time target_temperature s =
    (if \<not> is_running s then (None, s)
     else
       (case get_measurements env s of
          (measurements, s0) \<Rightarrow>
            update_stage_on measurements now dwell_time hold_current climit hold_time
              target_temperature s0))"

subsection \<open>controllers/main\_controller.py: MainController\<close>

text \<open>
  The attributes of a \<^verbatim>\<open>MainController\<close>, prefixed \<open>mc_\<close>. Its timer manager is the
  object the device controller holds (\<^verbatim>\<open>device_controller.timer_manager = self.timer_manager\<close>),
  so the model keeps it there.
\<close>

record main_controller =
  mc_device_controller :: device_controller
  mc_dwell_time :: real
  mc_hold_current :: real
  mc_current_limit :: real
  mc_target_temperature :: "real option"
  mc_hold_time :: real

text \<open>
  \<^verbatim>\<open>setup_timers\<close>. The four keys it reads are in \<open>TIMER_PERIODS\<close>, so the
  \<^verbatim>\<open>KeyError\<close> of a missing key does not occur and the last branch is never taken.
\<close>

definition setup_timers :: "timer_manager \<Rightarrow> timer_manager" where
  "setup_timers tm =
    (case (map_of TIMER_PERIODS ''control'', map_of TIMER_PERIODS ''data_standard'',
           map_of TIMER_PERIODS ''display_standard'', map_of TIMER_PERIODS ''temperature'') of
       (Some control, Some data, Some display, Some temperature) \<Rightarrow>
         add_timer ''temperature'' temperature temperature_timer_callback
           (add_timer ''display'' display display_timer_callback
             (add_timer ''data'' data data_timer_callback
               (add_timer ''control'' control control_timer_callback tm)))
     | _ \<Rightarrow> tm)"

text \<open>\<^verbatim>\<open>__init__\<close>, given the device controller it has built.\<close>

definition MainController_init :: "device_controller \<Rightarrow> main_controller" where
  "MainController_init dc =
    \<lparr>mc_device_controller = dc\<lparr>timer_manager := Some (setup_timers TimerManager_init)\<rparr>,
     mc_dwell_time = 300, mc_hold_current = 60, mc_current_limit = 60,
     mc_target_temperature = None, mc_hold_time = 60\<rparr>"

definition update_parameters ::
  "real \<Rightarrow> real \<Rightarrow> real \<Rightarrow> real \<Rightarrow> real \<Rightarrow> main_controller \<Rightarrow> main_controller" where
  "update_parameters electrical_distance width thickness electric_field current_density m =
    (let voltage = electric_field * electrical_distance;
         current = current_density * width * thickness
     in m\<lparr>mc_device_controller :=
            snd (set_voltage_current_limits voltage current (mc_device_controller m))\<rparr>)"

definition update_hold_time :: "real \<Rightarrow> main_controller \<Rightarrow> main_controller" where
  "update_hold_time hold_time m = m\<lparr>mc_hold_time := hold_time\<rparr>"

definition control_timer_callback_run ::
  "instruments \<Rightarrow> real \<Rightarrow> main_controller \<Rightarrow> exn option \<times> main_controller" where
  "control_timer_callback_run env now m =
    (if is_running (mc_device_controller m)
     then
       (case update_stage env now (mc_dwell_time m) (mc_hold_current m) (mc_current_limit m)
               (mc_hold_time m) (mc_target_temperature m) (mc_device_controller m) of
          (r, s) \<Rightarrow> (r, m\<lparr>mc_device_controller := s\<rparr>))
     else (None, m))"

section \<open>Observations and example states\<close>

text \<open>What the properties below observe of the instruments, and the inputs they are tried on.\<close>

text \<open>The pairs written to the analog outputs so far, newest first.\<close>

definition daq_written :: "daq_controller \<Rightarrow> (real \<times> real) list" where
  "daq_written d = (case ao_task d of None \<Rightarrow> [] | Some task \<Rightarrow> ao_written task)"

text \<open>The driver accepts the next write to the analog outputs.\<close>

definition ao_accepts :: "ao_handle \<Rightarrow> bool" where
  "ao_accepts task = (case ao_faults task of [] \<Rightarrow> True | f # fs \<Rightarrow> \<not> f)"

text \<open>The source meter accepts the next two commands.\<close>

definition keithley_accepts :: "keithley_handle \<Rightarrow> bool" where
  "keithley_accepts k =
    (case k_faults k of
       [] \<Rightarrow> True
     | f1 # fs \<Rightarrow> \<not> f1 \<and> (case fs of [] \<Rightarrow> True | f2 # _ \<Rightarrow> \<not> f2))"

text \<open>The DAQ output task exists and takes the next write.\<close>

definition daq_accepts :: "daq_controller \<Rightarrow> bool" where
  "daq_accepts d =
    (case (if nidaqmx_available d then ao_task d else None) of
       None \<Rightarrow> False
     | Some task \<Rightarrow> ao_accepts task)"

text \<open>There is no source meter to write to, or it takes the next two commands.\<close>

definition keithley_ready :: "bool \<Rightarrow> keithley_handle option \<Rightarrow> bool" where
  "keithley_ready pyvisa k =
    (case (if pyvisa then k else None) of
       None \<Rightarrow> True
     | Some h \<Rightarrow> keithley_accepts h)"

text \<open>The instruments accept one \<^verbatim>\<open>set_outputs\<close>.\<close>

definition outputs_accepted :: "device_controller \<Rightarrow> bool" where
  "outputs_accepted s =
    (daq_accepts (daq_controller s) \<and> keithley_ready (pyvisa_available s) (keithley s))"

text \<open>
  Feeding a sequence of current readings to the detector: for each one, whether a
  transition was reported and the mode after the call.
\<close>

fun feed ::
  "real \<Rightarrow> real \<Rightarrow> real \<Rightarrow> real list \<Rightarrow> device_controller \<Rightarrow> (bool \<times> mode) list" where
  "feed now voltage climit [] s = []"
| "feed now voltage climit (current # currents) s =
    (case detect_cv_cc_transition now voltage current climit s of
       (transition, s') \<Rightarrow>
         (transition, power_supply_mode s') # feed now voltage climit currents s')"

text \<open>A DAQ controller whose output task exists and works, with nothing written yet.\<close>

definition daq_ready :: daq_controller where
  "daq_ready = \<lparr>nidaqmx_available = True, ao_task = Some \<lparr>ao_written = [], ao_faults = []\<rparr>\<rparr>"

text \<open>A DAQ controller whose output task was never created.\<close>

definition daq_missing :: daq_controller where
  "daq_missing = \<lparr>nidaqmx_available = True, ao_task = None\<rparr>"

text \<open>
  The two triggers of the INCUBATION branch, as the source tests them: the mode is CC and
  the recorded CV-to-CC transition time is set, non-zero and less than 1.0 s old; the
  current reading is present, non-zero and strictly above 0.9 times the limit.
\<close>

definition transition_trigger :: "real \<Rightarrow> device_controller \<Rightarrow> bool" where
  "transition_trigger now s =
    (power_supply_mode s = CC \<and>
     (case cv_cc_transition_time s of None \<Rightarrow> False | Some t \<Rightarrow> t \<noteq> 0 \<and> now - t < 1.0))"

definition threshold_trigger :: "real option \<Rightarrow> real \<Rightarrow> bool" where
  "threshold_trigger current climit =
    (case current of None \<Rightarrow> False | Some c \<Rightarrow> c \<noteq> 0 \<and> c > 0.9 * climit)"

text \<open>The two messages that tell which trigger opened the FLASH stage.\<close>

definition by_transition_msg :: "level \<times> string" where
  "by_transition_msg = (INFO, ''Entering flash stage (j=2) - triggered by CV->CC transition'')"

definition by_threshold_msg :: "level \<times> string" where
  "by_threshold_msg = (INFO, ''Entering flash stage (j=2) - traditional current threshold'')"

text \<open>A source meter that takes every command, with nothing written yet.\<close>

definition keithley_idle :: keithley_handle where
  "keithley_idle = \<lparr>k_written = [], k_faults = []\<rparr>"

text \<open>
  What the instruments answer on a tick: two DAQ samples of 2 V (120 V across the sample)
  and the given current in mA; both reads failing; only the voltage read failing, with
  96 mA read; two DAQ samples of -2 V, below the 0 to 5 V a sample voltage can have, with
  96 mA read.
\<close>

definition readings :: "real \<Rightarrow> instruments" where
  "readings current_ma = \<lparr>daq_samples = Some [2, 2], keithley_ua = Some (current_ma * 1000)\<rparr>"

definition readings_failed :: instruments where
  "readings_failed = \<lparr>daq_samples = None, keithley_ua = None\<rparr>"

definition readings_voltage_failed :: instruments where
  "readings_voltage_failed = \<lparr>daq_samples = None, keithley_ua = Some 96000\<rparr>"

definition readings_out_of_range :: instruments where
  "readings_out_of_range = \<lparr>daq_samples = Some [-2, -2], keithley_ua = Some 96000\<rparr>"

text \<open>
  A run in stage HOLD whose flash started at t = 100 and whose hold started at t = 101, on
  the given DAQ controller.
\<close>

definition hold_running :: "daq_controller \<Rightarrow> device_controller" where
  "hold_running daq =
    (DeviceController_init daq True (Some keithley_idle))
      \<lparr>is_running := True, current_stage := HOLD, power_supply_mode := CC,
       current_limit_reached := True, start_time := 40,
       flash_start_time := Some 100, hold_start_time := 101\<rparr>"

text \<open>
  Runs in stage INCUBATION and in stage DWELL with working instruments, and a run in
  INCUBATION whose detector went to CC at t = 49.7 and has since gone back to CV.
\<close>

definition incubation_running :: device_controller where
  "incubation_running =
    (DeviceController_init daq_ready True (Some keithley_idle))
      \<lparr>is_running := True, current_stage := INCUBATION, start_time := 40\<rparr>"

definition incubation_reverted :: device_controller where
  "incubation_reverted =
    incubation_running\<lparr>cv_cc_transition_time := Some 49.7, voltage_before_cc := Some 120\<rparr>"

definition dwell_running :: device_controller where
  "dwell_running =
    (DeviceController_init daq_ready True (Some keithley_idle))
      \<lparr>is_running := True, current_stage := DWELL, start_time := 0\<rparr>"

text \<open>
  A manager after \<^verbatim>\<open>add_timer("control", ...)\<close> and \<^verbatim>\<open>start_all()\<close>, and the same
  manager after one more \<^verbatim>\<open>add_timer("data", ...)\<close>: the second timer is registered
  and has no thread.
\<close>

definition control_manager :: timer_manager where
  "control_manager =
    snd (start_all (add_timer ''control'' 0.1 control_timer_callback TimerManager_init))"

definition late_manager :: timer_manager where
  "late_manager = add_timer ''data'' 0.1 data_timer_callback control_manager"

text \<open>A world for a timer thread with nothing else in it.\<close>

definition world_at :: "real \<Rightarrow> timer_manager \<Rightarrow> unit world" where
  "world_at t tm = \<lparr>clock = t, manager = tm, stdout = [], app = ()\<rparr>"

text \<open>A callback that takes 30 ms, sets the period of the control timer to 0.2 s and then raises.\<close>

definition failing_callback :: "callback \<Rightarrow> unit world \<Rightarrow> exn option \<times> unit world" where
  "failing_callback cb w =
    (Some (ValueError ''callback failed''),
     w\<lparr>clock := clock w + 0.03, manager := update_period ''control'' 0.2 (manager w)\<rparr>)"

text \<open>
  The same callback when it also clears \<open>running\<close> once it is called at t = 1000.1
  or later.
\<close>

definition stopping_callback :: "callback \<Rightarrow> unit world \<Rightarrow> exn option \<times> unit world" where
  "stopping_callback cb w =
    (Some (ValueError ''callback failed''),
     w\<lparr>clock := clock w + 0.03,
       manager := (update_period ''control'' 0.2 (manager w))\<lparr>running := clock w < 1000.1\<rparr>\<rparr>)"

text \<open>A main controller as \<^verbatim>\<open>__init__\<close> leaves it, on working instruments.\<close>

definition main_ready :: main_controller where
  "main_ready = MainController_init (DeviceController_init daq_ready True (Some keithley_idle))"

text \<open>The HOLD run of \<open>hold_running\<close> once its stage has been set to SHUTDOWN.\<close>

definition shutdown_running :: "daq_controller \<Rightarrow> device_controller" where
  "shutdown_running daq = (hold_running daq)\<lparr>current_stage := SHUTDOWN\<rparr>"

section \<open>Properties\<close>

subsection \<open>What each helper leaves unchanged\<close>

text \<open>
  Each helper touches a few attributes only. The frame lemmas say so as one equation
  (overwriting the touched attributes makes the result equal to the input), and the
  lemmas after them read every other attribute off it.
\<close>

lemma update_timer_period_frame:
  "(update_timer_period item s)\<lparr>timer_manager := tm, log := l\<rparr> = s\<lparr>timer_manager := tm, log := l\<rparr>"
  by (simp add: update_timer_period_def logger_def split: prod.splits option.splits)

lemma fold_update_timer_period_frame:
  "(fold update_timer_period config s)\<lparr>timer_manager := tm, log := l\<rparr>
     = s\<lparr>timer_manager := tm, log := l\<rparr>"
proof (induction config arbitrary: s)
  case Nil
  show ?case by simp
next
  case (Cons item config)
  have "(fold update_timer_period (item # config) s)\<lparr>timer_manager := tm, log := l\<rparr>
      = (update_timer_period item s)\<lparr>timer_manager := tm, log := l\<rparr>"
    using Cons.IH [of "update_timer_period item s"] by simp
  then show ?case by (simp only: update_timer_period_frame)
qed

lemma update_timer_periods_for_stage_frame:
  "(update_timer_periods_for_stage stg s)\<lparr>timer_manager := tm, log := l\<rparr>
     = s\<lparr>timer_manager := tm, log := l\<rparr>"
proof -
  have a: "\<And>x. (logger DEBUG ''Updated timer periods for stage'' x)\<lparr>timer_manager := tm, log := l\<rparr>
      = x\<lparr>timer_manager := tm, log := l\<rparr>"
    by (simp add: logger_def)
  show ?thesis
    unfolding update_timer_periods_for_stage_def Let_def
    by (simp only: a fold_update_timer_period_frame split: option.split) simp
qed

lemma update_timer_periods_for_substage_frame:
  "(update_timer_periods_for_substage sub s)\<lparr>timer_manager := tm, log := l\<rparr>
     = s\<lparr>timer_manager := tm, log := l\<rparr>"
proof -
  have a: "\<And>x. (logger DEBUG ''Updated timer periods for sub-stage'' x)\<lparr>timer_manager := tm, log := l\<rparr>
      = x\<lparr>timer_manager := tm, log := l\<rparr>"
    by (simp add: logger_def)
  show ?thesis
    unfolding update_timer_periods_for_substage_def Let_def
    by (simp only: a fold_update_timer_period_frame split: option.split if_split) simp
qed

lemma set_outputs_frame:
  "(snd (set_outputs voltage current s))\<lparr>daq_controller := d, keithley := k, log := l\<rparr>
     = s\<lparr>daq_controller := d, keithley := k, log := l\<rparr>"
  by (simp add: set_outputs_def try_except_def logger_def Let_def
      split: prod.splits option.splits if_splits)

lemma stop_process_frame:
  "(snd (stop_process s))\<lparr>daq_controller := d, keithley := k, log := l, is_running := b\<rparr>
     = s\<lparr>daq_controller := d, keithley := k, log := l, is_running := b\<rparr>"
proof -
  define s2 where "s2 = (logger INFO ''Stopping process'' s)\<lparr>is_running := False\<rparr>"
  have a: "(snd (set_outputs 0 0 s2))\<lparr>daq_controller := d, keithley := k, log := l, is_running := b\<rparr>
      = s\<lparr>daq_controller := d, keithley := k, log := l, is_running := b\<rparr>"
    using arg_cong [OF set_outputs_frame [where voltage = 0 and current = 0 and s = s2 and d = d
          and k = k and l = l], of "\<lambda>x. x\<lparr>is_running := b\<rparr>"]
    by (simp add: s2_def logger_def)
  obtain r s3 where e: "set_outputs 0 0 s2 = (r, s3)"
    by (cases "set_outputs 0 0 s2")
  from a e have a': "s3\<lparr>daq_controller := d, keithley := k, log := l, is_running := b\<rparr>
      = s\<lparr>daq_controller := d, keithley := k, log := l, is_running := b\<rparr>"
    by simp
  have "stop_process s = try_except (set_outputs 0 0 s2)
      (\<lambda>e s'. (None, logger ERROR ''Error stopping process'' s'))"
    by (simp add: stop_process_def Let_def s2_def)
  then show ?thesis
    using a' by (cases r) (simp_all add: e try_except_def logger_def)
qed

lemma get_measurements_frame:
  "(snd (get_measurements env s))\<lparr>log := l\<rparr> = s\<lparr>log := l\<rparr>"
  by (auto simp: get_measurements_def read_sample_voltage_improved_def
        read_keithley_current_improved_def logger_def Let_def
      split: prod.splits option.splits if_splits)

lemma detect_step_frame:
  "(detect_step measurements now climit s)
      \<lparr>power_supply_mode := m, cv_cc_transition_time := t, voltage_before_cc := v,
       current_limit_reached := b, log := l\<rparr>
     = s\<lparr>power_supply_mode := m, cv_cc_transition_time := t, voltage_before_cc := v,
        current_limit_reached := b, log := l\<rparr>"
  by (simp add: detect_step_def detect_cv_cc_transition_def logger_def Let_def
      split: prod.splits option.splits if_splits)

lemma update_timer_periods_for_stage_fields [simp]:
  shows "daq_controller (update_timer_periods_for_stage stg s) = daq_controller s"
    and "pyvisa_available (update_timer_periods_for_stage stg s) = pyvisa_available s"
    and "keithley (update_timer_periods_for_stage stg s) = keithley s"
    and "is_running (update_timer_periods_for_stage stg s) = is_running s"
    and "current_stage (update_timer_periods_for_stage stg s) = current_stage s"
    and "sub_stage (update_timer_periods_for_stage stg s) = sub_stage s"
    and "start_time (update_timer_periods_for_stage stg s) = start_time s"
    and "flash_start_time (update_timer_periods_for_stage stg s) = flash_start_time s"
    and "hold_start_time (update_timer_periods_for_stage stg s) = hold_start_time s"
    and "stage_2_time (update_timer_periods_for_stage stg s) = stage_2_time s"
    and "temperature_reached (update_timer_periods_for_stage stg s) = temperature_reached s"
    and "power_supply_mode (update_timer_periods_for_stage stg s) = power_supply_mode s"
    and "cv_cc_transition_time (update_timer_periods_for_stage stg s) = cv_cc_transition_time s"
    and "voltage_before_cc (update_timer_periods_for_stage stg s) = voltage_before_cc s"
    and "current_limit_reached (update_timer_periods_for_stage stg s) = current_limit_reached s"
    and "last_voltage (update_timer_periods_for_stage stg s) = last_voltage s"
    and "last_current (update_timer_periods_for_stage stg s) = last_current s"
    and "last_temperature (update_timer_periods_for_stage stg s) = last_temperature s"
    and "voltage_limit (update_timer_periods_for_stage stg s) = voltage_limit s"
    and "current_limit (update_timer_periods_for_stage stg s) = current_limit s"
    and "hold_time_limit (update_timer_periods_for_stage stg s) = hold_time_limit s"
    and "hold_elapsed_time (update_timer_periods_for_stage stg s) = hold_elapsed_time s"
    and "experiment_stopped_by_hold_time (update_timer_periods_for_stage stg s) = experiment_stopped_by_hold_time s"
    and "last_flash_log_time (update_timer_periods_for_stage stg s) = last_flash_log_time s"
    and "last_hold_log_time (update_timer_periods_for_stage stg s) = last_hold_log_time s"
proof -
  note F = update_timer_periods_for_stage_frame [where stg = stg and s = s and tm = None and l = "[]"]
  show "daq_controller (update_timer_periods_for_stage stg s) = daq_controller s"
    using arg_cong [OF F, of daq_controller] by simp
  show "pyvisa_available (update_timer_periods_for_stage stg s) = pyvisa_available s"
    using arg_cong [OF F, of pyvisa_available] by simp
  show "keithley (update_timer_periods_for_stage stg s) = keithley s"
    using arg_cong [OF F, of keithley] by simp
  show "is_running (update_timer_periods_for_stage stg s) = is_running s"
    using arg_cong [OF F, of is_running] by simp
  show "current_stage (update_timer_periods_for_stage stg s) = current_stage s"
    using arg_cong [OF F, of current_stage] by simp
  show "sub_stage (update_timer_periods_for_stage stg s) = sub_stage s"
    using arg_cong [OF F, of sub_stage] by simp
  show "start_time (update_timer_periods_for_stage stg s) = start_time s"
    using arg_cong [OF F, of start_time] by simp
  show "flash_start_time (update_timer_periods_for_stage stg s) = flash_start_time s"
    using arg_cong [OF F, of flash_start_time] by simp
  show "hold_start_time (update_timer_periods_for_stage stg s) = hold_start_time s"
    using arg_cong [OF F, of hold_start_time] by simp
  show "stage_2_time (update_timer_periods_for_stage stg s) = stage_2_time s"
    using arg_cong [OF F, of stage_2_time] by simp
  show "temperature_reached (update_timer_periods_for_stage stg s) = temperature_reached s"
    using arg_cong [OF F, of temperature_reached] by simp
  show "power_supply_mode (update_timer_periods_for_stage stg s) = power_supply_mode s"
    using arg_cong [OF F, of power_supply_mode] by simp
  show "cv_cc_transition_time (update_timer_periods_for_stage stg s) = cv_cc_transition_time s"
    using arg_cong [OF F, of cv_cc_transition_time] by simp
  show "voltage_before_cc (update_timer_periods_for_stage stg s) = voltage_before_cc s"
    using arg_cong [OF F, of voltage_before_cc] by simp
  show "current_limit_reached (update_timer_periods_for_stage stg s) = current_limit_reached s"
    using arg_cong [OF F, of current_limit_reached] by simp
  show "last_voltage (update_timer_periods_for_stage stg s) = last_voltage s"
    using arg_cong [OF F, of last_voltage] by simp
  show "last_current (update_timer_periods_for_stage stg s) = last_current s"
    using arg_cong [OF F, of last_current] by simp
  show "last_temperature (update_timer_periods_for_stage stg s) = last_temperature s"
    using arg_cong [OF F, of last_temperature] by simp
  show "voltage_limit (update_timer_periods_for_stage stg s) = voltage_limit s"
    using arg_cong [OF F, of voltage_limit] by simp
  show "current_limit (update_timer_periods_for_stage stg s) = current_limit s"
    using arg_cong [OF F, of current_limit] by simp
  show "hold_time_limit (update_timer_periods_for_stage stg s) = hold_time_limit s"
    using arg_cong [OF F, of hold_time_limit] by simp
  show "hold_elapsed_time (update_timer_periods_for_stage stg s) = hold_elapsed_time s"
    using arg_cong [OF F, of hold_elapsed_time] by simp
  show "experiment_stopped_by_hold_time (update_timer_periods_for_stage stg s) = experiment_stopped_by_hold_time s"
    using arg_cong [OF F, of experiment_stopped_by_hold_time] by simp
  show "last_flash_log_time (update_timer_periods_for_stage stg s) = last_flash_log_time s"
    using arg_cong [OF F, of last_flash_log_time] by simp
  show "last_hold_log_time (update_timer_periods_for_stage stg s) = last_hold_log_time s"
    using arg_cong [OF F, of last_hold_log_time] by simp
qed

lemma update_timer_periods_for_substage_fields [simp]:
  shows "daq_controller (update_timer_periods_for_substage sub s) = daq_controller s"
    and "pyvisa_available (update_timer_periods_for_substage sub s) = pyvisa_available s"
    and "keithley (update_timer_periods_for_substage sub s) = keithley s"
    and "is_running (update_timer_periods_for_substage sub s) = is_running s"
    and "current_stage (update_timer_periods_for_substage sub s) = current_stage s"
    and "sub_stage (update_timer_periods_for_substage sub s) = sub_stage s"
    and "start_time (update_timer_periods_for_substage sub s) = start_time s"
    and "flash_start_time (update_timer_periods_for_substage sub s) = flash_start_time s"
    and "hold_start_time (update_timer_periods_for_substage sub s) = hold_start_time s"
    and "stage_2_time (update_timer_periods_for_substage sub s) = stage_2_time s"
    and "temperature_reached (update_timer_periods_for_substage sub s) = temperature_reached s"
    and "power_supply_mode (update_timer_periods_for_substage sub s) = power_supply_mode s"
    and "cv_cc_transition_time (update_timer_periods_for_substage sub s) = cv_cc_transition_time s"
    and "voltage_before_cc (update_timer_periods_for_substage sub s) = voltage_before_cc s"
    and "current_limit_reached (update_timer_periods_for_substage sub s) = current_limit_reached s"
    and "last_voltage (update_timer_periods_for_substage sub s) = last_voltage s"
    and "last_current (update_timer_periods_for_substage sub s) = last_current s"
    and "last_temperature (update_timer_periods_for_substage sub s) = last_temperature s"
    and "voltage_limit (update_timer_periods_for_substage sub s) = voltage_limit s"
    and "current_limit (update_timer_periods_for_substage sub s) = current_limit s"
    and "hold_time_limit (update_timer_periods_for_substage sub s) = hold_time_limit s"
    and "hold_elapsed_time (update_timer_periods_for_substage sub s) = hold_elapsed_time s"
    and "experiment_stopped_by_hold_time (update_timer_periods_for_substage sub s) = experiment_stopped_by_hold_time s"
    and "last_flash_log_time (update_timer_periods_for_substage sub s) = last_flash_log_time s"
    and "last_hold_log_time (update_timer_periods_for_substage sub s) = last_hold_log_time s"
proof -
  note F = update_timer_periods_for_substage_frame [where sub = sub and s = s and tm = None and l = "[]"]
  show "daq_controller (update_timer_periods_for_substage sub s) = daq_controller s"
    using arg_cong [OF F, of daq_controller] by simp
  show "pyvisa_available (update_timer_periods_for_substage sub s) = pyvisa_available s"
    using arg_cong [OF F, of pyvisa_available] by simp
  show "keithley (update_timer_periods_for_substage sub s) = keithley s"
    using arg_cong [OF F, of keithley] by simp
  show "is_running (update_timer_periods_for_substage sub s) = is_running s"
    using arg_cong [OF F, of is_running] by simp
  show "current_stage (update_timer_periods_for_substage sub s) = current_stage s"
    using arg_cong [OF F, of current_stage] by simp
  show "sub_stage (update_timer_periods_for_substage sub s) = sub_stage s"
    using arg_cong [OF F, of sub_stage] by simp
  show "start_time (update_timer_periods_for_substage sub s) = start_time s"
    using arg_cong [OF F, of start_time] by simp
  show "flash_start_time (update_timer_periods_for_substage sub s) = flash_start_time s"
    using arg_cong [OF F, of flash_start_time] by simp
  show "hold_start_time (update_timer_periods_for_substage sub s) = hold_start_time s"
    using arg_cong [OF F, of hold_start_time] by simp
  show "stage_2_time (update_timer_periods_for_substage sub s) = stage_2_time s"
    using arg_cong [OF F, of stage_2_time] by simp
  show "temperature_reached (update_timer_periods_for_substage sub s) = temperature_reached s"
    using arg_cong [OF F, of temperature_reached] by simp
  show "power_supply_mode (update_timer_periods_for_substage sub s) = power_supply_mode s"
    using arg_cong [OF F, of power_supply_mode] by simp
  show "cv_cc_transition_time (update_timer_periods_for_substage sub s) = cv_cc_transition_time s"
    using arg_cong [OF F, of cv_cc_transition_time] by simp
  show "voltage_before_cc (update_timer_periods_for_substage sub s) = voltage_before_cc s"
    using arg_cong [OF F, of voltage_before_cc] by simp
  show "current_limit_reached (update_timer_periods_for_substage sub s) = current_limit_reached s"
    using arg_cong [OF F, of current_limit_reached] by simp
  show "last_voltage (update_timer_periods_for_substage sub s) = last_voltage s"
    using arg_cong [OF F, of last_voltage] by simp
  show "last_current (update_timer_periods_for_substage sub s) = last_current s"
    using arg_cong [OF F, of last_current] by simp
  show "last_temperature (update_timer_periods_for_substage sub s) = last_temperature s"
    using arg_cong [OF F, of last_temperature] by simp
  show "voltage_limit (update_timer_periods_for_substage sub s) = voltage_limit s"
    using arg_cong [OF F, of voltage_limit] by simp
  show "current_limit (update_timer_periods_for_substage sub s) = current_limit s"
    using arg_cong [OF F, of current_limit] by simp
  show "hold_time_limit (update_timer_periods_for_substage sub s) = hold_time_limit s"
    using arg_cong [OF F, of hold_time_limit] by simp
  show "hold_elapsed_time (update_timer_periods_for_substage sub s) = hold_elapsed_time s"
    using arg_cong [OF F, of hold_elapsed_time] by simp
  show "experiment_stopped_by_hold_time (update_timer_periods_for_substage sub s) = experiment_stopped_by_hold_time s"
    using arg_cong [OF F, of experiment_stopped_by_hold_time] by simp
  show "last_flash_log_time (update_timer_periods_for_substage sub s) = last_flash_log_time s"
    using arg_cong [OF F, of last_flash_log_time] by simp
  show "last_hold_log_time (update_timer_periods_for_substage sub s) = last_hold_log_time s"
    using arg_cong [OF F, of last_hold_log_time] by simp
qed

lemma set_outputs_fields [simp]:
  shows "pyvisa_available (snd (set_outputs voltage current s)) = pyvisa_available s"
    and "is_running (snd (set_outputs voltage current s)) = is_running s"
    and "current_stage (snd (set_outputs voltage current s)) = current_stage s"
    and "sub_stage (snd (set_outputs voltage current s)) = sub_stage s"
    and "start_time (snd (set_outputs voltage current s)) = start_time s"
    and "flash_start_time (snd (set_outputs voltage current s)) = flash_start_time s"
    and "hold_start_time (snd (set_outputs voltage current s)) = hold_start_time s"
    and "stage_2_time (snd (set_outputs voltage current s)) = stage_2_time s"
    and "temperature_reached (snd (set_outputs voltage current s)) = temperature_reached s"
    and "power_supply_mode (snd (set_outputs voltage current s)) = power_supply_mode s"
    and "cv_cc_transition_time (snd (set_outputs voltage current s)) = cv_cc_transition_time s"
    and "voltage_before_cc (snd (set_outputs voltage current s)) = voltage_before_cc s"
    and "current_limit_reached (snd (set_outputs voltage current s)) = current_limit_reached s"
    and "last_voltage (snd (set_outputs voltage current s)) = last_voltage s"
    and "last_current (snd (set_outputs voltage current s)) = last_current s"
    and "last_temperature (snd (set_outputs voltage current s)) = last_temperature s"
    and "voltage_limit (snd (set_outputs voltage current s)) = voltage_limit s"
    and "current_limit (snd (set_outputs voltage current s)) = current_limit s"
    and "hold_time_limit (snd (set_outputs voltage current s)) = hold_time_limit s"
    and "hold_elapsed_time (snd (set_outputs voltage current s)) = hold_elapsed_time s"
    and "experiment_stopped_by_hold_time (snd (set_outputs voltage current s)) = experiment_stopped_by_hold_time s"
    and "last_flash_log_time (snd (set_outputs voltage current s)) = last_flash_log_time s"
    and "last_hold_log_time (snd (set_outputs voltage current s)) = last_hold_log_time s"
    and "timer_manager (snd (set_outputs voltage current s)) = timer_manager s"
proof -
  note F = set_outputs_frame [where voltage = voltage and current = current and s = s and d = daq_missing and k = None and l = "[]"]
  show "pyvisa_available (snd (set_outputs voltage current s)) = pyvisa_available s"
    using arg_cong [OF F, of pyvisa_available] by simp
  show "is_running (snd (set_outputs voltage current s)) = is_running s"
    using arg_cong [OF F, of is_running] by simp
  show "current_stage (snd (set_outputs voltage current s)) = current_stage s"
    using arg_cong [OF F, of current_stage] by simp
  show "sub_stage (snd (set_outputs voltage current s)) = sub_stage s"
    using arg_cong [OF F, of sub_stage] by simp
  show "start_time (snd (set_outputs voltage current s)) = start_time s"
    using arg_cong [OF F, of start_time] by simp
  show "flash_start_time (snd (set_outputs voltage current s)) = flash_start_time s"
    using arg_cong [OF F, of flash_start_time] by simp
  show "hold_start_time (snd (set_outputs voltage current s)) = hold_start_time s"
    using arg_cong [OF F, of hold_start_time] by simp
  show "stage_2_time (snd (set_outputs voltage current s)) = stage_2_time s"
    using arg_cong [OF F, of stage_2_time] by simp
  show "temperature_reached (snd (set_outputs voltage current s)) = temperature_reached s"
    using arg_cong [OF F, of temperature_reached] by simp
  show "power_supply_mode (snd (set_outputs voltage current s)) = power_supply_mode s"
    using arg_cong [OF F, of power_supply_mode] by simp
  show "cv_cc_transition_time (snd (set_outputs voltage current s)) = cv_cc_transition_time s"
    using arg_cong [OF F, of cv_cc_transition_time] by simp
  show "voltage_before_cc (snd (set_outputs voltage current s)) = voltage_before_cc s"
    using arg_cong [OF F, of voltage_before_cc] by simp
  show "current_limit_reached (snd (set_outputs voltage current s)) = current_limit_reached s"
    using arg_cong [OF F, of current_limit_reached] by simp
  show "last_voltage (snd (set_outputs voltage current s)) = last_voltage s"
    using arg_cong [OF F, of last_voltage] by simp
  show "last_current (snd (set_outputs voltage current s)) = last_current s"
    using arg_cong [OF F, of last_current] by simp
  show "last_temperature (snd (set_outputs voltage current s)) = last_temperature s"
    using arg_cong [OF F, of last_temperature] by simp
  show "voltage_limit (snd (set_outputs voltage current s)) = voltage_limit s"
    using arg_cong [OF F, of voltage_limit] by simp
  show "current_limit (snd (set_outputs voltage current s)) = current_limit s"
    using arg_cong [OF F, of current_limit] by simp
  show "hold_time_limit (snd (set_outputs voltage current s)) = hold_time_limit s"
    using arg_cong [OF F, of hold_time_limit] by simp
  show "hold_elapsed_time (snd (set_outputs voltage current s)) = hold_elapsed_time s"
    using arg_cong [OF F, of hold_elapsed_time] by simp
  show "experiment_stopped_by_hold_time (snd (set_outputs voltage current s)) = experiment_stopped_by_hold_time s"
    using arg_cong [OF F, of experiment_stopped_by_hold_time] by simp
  show "last_flash_log_time (snd (set_outputs voltage current s)) = last_flash_log_time s"
    using arg_cong [OF F, of last_flash_log_time] by simp
  show "last_hold_log_time (snd (set_outputs voltage current s)) = last_hold_log_time s"
    using arg_cong [OF F, of last_hold_log_time] by simp
  show "timer_manager (snd (set_outputs voltage current s)) = timer_manager s"
    using arg_cong [OF F, of timer_manager] by simp
qed

lemma stop_process_fields [simp]:
  shows "pyvisa_available (snd (stop_process s)) = pyvisa_available s"
    and "current_stage (snd (stop_process s)) = current_stage s"
    and "sub_stage (snd (stop_process s)) = sub_stage s"
    and "start_time (snd (stop_process s)) = start_time s"
    and "flash_start_time (snd (stop_process s)) = flash_start_time s"
    and "hold_start_time (snd (stop_process s)) = hold_start_time s"
    and "stage_2_time (snd (stop_process s)) = stage_2_time s"
    and "temperature_reached (snd (stop_process s)) = temperature_reached s"
    and "power_supply_mode (snd (stop_process s)) = power_supply_mode s"
    and "cv_cc_transition_time (snd (stop_process s)) = cv_cc_transition_time s"
    and "voltage_before_cc (snd (stop_process s)) = voltage_before_cc s"
    and "current_limit_reached (snd (stop_process s)) = current_limit_reached s"
    and "last_voltage (snd (stop_process s)) = last_voltage s"
    and "last_current (snd (stop_process s)) = last_current s"
    and "last_temperature (snd (stop_process s)) = last_temperature s"
    and "voltage_limit (snd (stop_process s)) = voltage_limit s"
    and "current_limit (snd (stop_process s)) = current_limit s"
    and "hold_time_limit (snd (stop_process s)) = hold_time_limit s"
    and "hold_elapsed_time (snd (stop_process s)) = hold_elapsed_time s"
    and "experiment_stopped_by_hold_time (snd (stop_process s)) = experiment_stopped_by_hold_time s"
    and "last_flash_log_time (snd (stop_process s)) = last_flash_log_time s"
    and "last_hold_log_time (snd (stop_process s)) = last_hold_log_time s"
    and "timer_manager (snd (stop_process s)) = timer_manager s"
proof -
  note F = stop_process_frame [where s = s and d = daq_missing and k = None and l = "[]" and b = False]
  show "pyvisa_available (snd (stop_process s)) = pyvisa_available s"
    using arg_cong [OF F, of pyvisa_available] by simp
  show "current_stage (snd (stop_process s)) = current_stage s"
    using arg_cong [OF F, of current_stage] by simp
  show "sub_stage (snd (stop_process s)) = sub_stage s"
    using arg_cong [OF F, of sub_stage] by simp
  show "start_time (snd (stop_process s)) = start_time s"
    using arg_cong [OF F, of start_time] by simp
  show "flash_start_time (snd (stop_process s)) = flash_start_time s"
    using arg_cong [OF F, of flash_start_time] by simp
  show "hold_start_time (snd (stop_process s)) = hold_start_time s"
    using arg_cong [OF F, of hold_start_time] by simp
  show "stage_2_time (snd (stop_process s)) = stage_2_time s"
    using arg_cong [OF F, of stage_2_time] by simp
  show "temperature_reached (snd (stop_process s)) = temperature_reached s"
    using arg_cong [OF F, of temperature_reached] by simp
  show "power_supply_mode (snd (stop_process s)) = power_supply_mode s"
    using arg_cong [OF F, of power_supply_mode] by simp
  show "cv_cc_transition_time (snd (stop_process s)) = cv_cc_transition_time s"
    using arg_cong [OF F, of cv_cc_transition_time] by simp
  show "voltage_before_cc (snd (stop_process s)) = voltage_before_cc s"
    using arg_cong [OF F, of voltage_before_cc] by simp
  show "current_limit_reached (snd (stop_process s)) = current_limit_reached s"
    using arg_cong [OF F, of current_limit_reached] by simp
  show "last_voltage (snd (stop_process s)) = last_voltage s"
    using arg_cong [OF F, of last_voltage] by simp
  show "last_current (snd (stop_process s)) = last_current s"
    using arg_cong [OF F, of last_current] by simp
  show "last_temperature (snd (stop_process s)) = last_temperature s"
    using arg_cong [OF F, of last_temperature] by simp
  show "voltage_limit (snd (stop_process s)) = voltage_limit s"
    using arg_cong [OF F, of voltage_limit] by simp
  show "current_limit (snd (stop_process s)) = current_limit s"
    using arg_cong [OF F, of current_limit] by simp
  show "hold_time_limit (snd (stop_process s)) = hold_time_limit s"
    using arg_cong [OF F, of hold_time_limit] by simp
  show "hold_elapsed_time (snd (stop_process s)) = hold_elapsed_time s"
    using arg_cong [OF F, of hold_elapsed_time] by simp
  show "experiment_stopped_by_hold_time (snd (stop_process s)) = experiment_stopped_by_hold_time s"
    using arg_cong [OF F, of experiment_stopped_by_hold_time] by simp
  show "last_flash_log_time (snd (stop_process s)) = last_flash_log_time s"
    using arg_cong [OF F, of last_flash_log_time] by simp
  show "last_hold_log_time (snd (stop_process s)) = last_hold_log_time s"
    using arg_cong [OF F, of last_hold_log_time] by simp
  show "timer_manager (snd (stop_process s)) = timer_manager s"
    using arg_cong [OF F, of timer_manager] by simp
qed

lemma get_measurements_fields [simp]:
  shows "daq_controller (snd (get_measurements env s)) = daq_controller s"
    and "pyvisa_available (snd (get_measurements env s)) = pyvisa_available s"
    and "keithley (snd (get_measurements env s)) = keithley s"
    and "is_running (snd (get_measurements env s)) = is_running s"
    and "current_stage (snd (get_measurements env s)) = current_stage s"
    and "sub_stage (snd (get_measurements env s)) = sub_stage s"
    and "start_time (snd (get_measurements env s)) = start_time s"
    and "flash_start_time (snd (get_measurements env s)) = flash_start_time s"
    and "hold_start_time (snd (get_measurements env s)) = hold_start_time s"
    and "stage_2_time (snd (get_measurements env s)) = stage_2_time s"
    and "temperature_reached (snd (get_measurements env s)) = temperature_reached s"
    and "power_supply_mode (snd (get_measurements env s)) = power_supply_mode s"
    and "cv_cc_transition_time (snd (get_measurements env s)) = cv_cc_transition_time s"
    and "voltage_before_cc (snd (get_measurements env s)) = voltage_before_cc s"
    and "current_limit_reached (snd (get_measurements env s)) = current_limit_reached s"
    and "last_voltage (snd (get_measurements env s)) = last_voltage s"
    and "last_current (snd (get_measurements env s)) = last_current s"
    and "last_temperature (snd (get_measurements env s)) = last_temperature s"
    and "voltage_limit (snd (get_measurements env s)) = voltage_limit s"
    and "current_limit (snd (get_measurements env s)) = current_limit s"
    and "hold_time_limit (snd (get_measurements env s)) = hold_time_limit s"
    and "hold_elapsed_time (snd (get_measurements env s)) = hold_elapsed_time s"
    and "experiment_stopped_by_hold_time (snd (get_measurements env s)) = experiment_stopped_by_hold_time s"
    and "last_flash_log_time (snd (get_measurements env s)) = last_flash_log_time s"
    and "last_hold_log_time (snd (get_measurements env s)) = last_hold_log_time s"
    and "timer_manager (snd (get_measurements env s)) = timer_manager s"
proof -
  note F = get_measurements_frame [where env = env and s = s and l = "[]"]
  show "daq_controller (snd (get_measurements env s)) = daq_controller s"
    using arg_cong [OF F, of daq_controller] by simp
  show "pyvisa_available (snd (get_measurements env s)) = pyvisa_available s"
    using arg_cong [OF F, of pyvisa_available] by simp
  show "keithley (snd (get_measurements env s)) = keithley s"
    using arg_cong [OF F, of keithley] by simp
  show "is_running (snd (get_measurements env s)) = is_running s"
    using arg_cong [OF F, of is_running] by simp
  show "current_stage (snd (get_measurements env s)) = current_stage s"
    using arg_cong [OF F, of current_stage] by simp
  show "sub_stage (snd (get_measurements env s)) = sub_stage s"
    using arg_cong [OF F, of sub_stage] by simp
  show "start_time (snd (get_measurements env s)) = start_time s"
    using arg_cong [OF F, of start_time] by simp
  show "flash_start_time (snd (get_measurements env s)) = flash_start_time s"
    using arg_cong [OF F, of flash_start_time] by simp
  show "hold_start_time (snd (get_measurements env s)) = hold_start_time s"
    using arg_cong [OF F, of hold_start_time] by simp
  show "stage_2_time (snd (get_measurements env s)) = stage_2_time s"
    using arg_cong [OF F, of stage_2_time] by simp
  show "temperature_reached (snd (get_measurements env s)) = temperature_reached s"
    using arg_cong [OF F, of temperature_reached] by simp
  show "power_supply_mode (snd (get_measurements env s)) = power_supply_mode s"
    using arg_cong [OF F, of power_supply_mode] by simp
  show "cv_cc_transition_time (snd (get_measurements env s)) = cv_cc_transition_time s"
    using arg_cong [OF F, of cv_cc_transition_time] by simp
  show "voltage_before_cc (snd (get_measurements env s)) = voltage_before_cc s"
    using arg_cong [OF F, of voltage_before_cc] by simp
  show "current_limit_reached (snd (get_measurements env s)) = current_limit_reached s"
    using arg_cong [OF F, of current_limit_reached] by simp
  show "last_voltage (snd (get_measurements env s)) = last_voltage s"
    using arg_cong [OF F, of last_voltage] by simp
  show "last_current (snd (get_measurements env s)) = last_current s"
    using arg_cong [OF F, of last_current] by simp
  show "last_temperature (snd (get_measurements env s)) = last_temperature s"
    using arg_cong [OF F, of last_temperature] by simp
  show "voltage_limit (snd (get_measurements env s)) = voltage_limit s"
    using arg_cong [OF F, of voltage_limit] by simp
  show "current_limit (snd (get_measurements env s)) = current_limit s"
    using arg_cong [OF F, of current_limit] by simp
  show "hold_time_limit (snd (get_measurements env s)) = hold_time_limit s"
    using arg_cong [OF F, of hold_time_limit] by simp
  show "hold_elapsed_time (snd (get_measurements env s)) = hold_elapsed_time s"
    using arg_cong [OF F, of hold_elapsed_time] by simp
  show "experiment_stopped_by_hold_time (snd (get_measurements env s)) = experiment_stopped_by_hold_time s"
    using arg_cong [OF F, of experiment_stopped_by_hold_time] by simp
  show "last_flash_log_time (snd (get_measurements env s)) = last_flash_log_time s"
    using arg_cong [OF F, of last_flash_log_time] by simp
  show "last_hold_log_time (snd (get_measurements env s)) = last_hold_log_time s"
    using arg_cong [OF F, of last_hold_log_time] by simp
  show "timer_manager (snd (get_measurements env s)) = timer_manager s"
    using arg_cong [OF F, of timer_manager] by simp
qed

lemma detect_step_fields [simp]:
  shows "daq_controller (detect_step measurements now climit s) = daq_controller s"
    and "pyvisa_available (detect_step measurements now climit s) = pyvisa_available s"
    and "keithley (detect_step measurements now climit s) = keithley s"
    and "is_running (detect_step measurements now climit s) = is_running s"
    and "current_stage (detect_step measurements now climit s) = current_stage s"
    and "sub_stage (detect_step measurements now climit s) = sub_stage s"
    and "start_time (detect_step measurements now climit s) = start_time s"
    and "flash_start_time (detect_step measurements now climit s) = flash_start_time s"
    and "hold_start_time (detect_step measurements now climit s) = hold_start_time s"
    and "stage_2_time (detect_step measurements now climit s) = stage_2_time s"
    and "temperature_reached (detect_step measurements now climit s) = temperature_reached s"
    and "last_voltage (detect_step measurements now climit s) = last_voltage s"
    and "last_current (detect_step measurements now climit s) = last_current s"
    and "last_temperature (detect_step measurements now climit s) = last_temperature s"
    and "voltage_limit (detect_step measurements now climit s) = voltage_limit s"
    and "current_limit (detect_step measurements now climit s) = current_limit s"
    and "hold_time_limit (detect_step measurements now climit s) = hold_time_limit s"
    and "hold_elapsed_time (detect_step measurements now climit s) = hold_elapsed_time s"
    and "experiment_stopped_by_hold_time (detect_step measurements now climit s) = experiment_stopped_by_hold_time s"
    and "last_flash_log_time (detect_step measurements now climit s) = last_flash_log_time s"
    and "last_hold_log_time (detect_step measurements now climit s) = last_hold_log_time s"
    and "timer_manager (detect_step measurements now climit s) = timer_manager s"
proof -
  note F = detect_step_frame [where measurements = measurements and now = now and climit = climit and s = s and m = CV and t = None and v = None and b = False and l = "[]"]
  show "daq_controller (detect_step measurements now climit s) = daq_controller s"
    using arg_cong [OF F, of daq_controller] by simp
  show "pyvisa_available (detect_step measurements now climit s) = pyvisa_available s"
    using arg_cong [OF F, of pyvisa_available] by simp
  show "keithley (detect_step measurements now climit s) = keithley s"
    using arg_cong [OF F, of keithley] by simp
  show "is_running (detect_step measurements now climit s) = is_running s"
    using arg_cong [OF F, of is_running] by simp
  show "current_stage (detect_step measurements now climit s) = current_stage s"
    using arg_cong [OF F, of current_stage] by simp
  show "sub_stage (detect_step measurements now climit s) = sub_stage s"
    using arg_cong [OF F, of sub_stage] by simp
  show "start_time (detect_step measurements now climit s) = start_time s"
    using arg_cong [OF F, of start_time] by simp
  show "flash_start_time (detect_step measurements now climit s) = flash_start_time s"
    using arg_cong [OF F, of flash_start_time] by simp
  show "hold_start_time (detect_step measurements now climit s) = hold_start_time s"
    using arg_cong [OF F, of hold_start_time] by simp
  show "stage_2_time (detect_step measurements now climit s) = stage_2_time s"
    using arg_cong [OF F, of stage_2_time] by simp
  show "temperature_reached (detect_step measurements now climit s) = temperature_reached s"
    using arg_cong [OF F, of temperature_reached] by simp
  show "last_voltage (detect_step measurements now climit s) = last_voltage s"
    using arg_cong [OF F, of last_voltage] by simp
  show "last_current (detect_step measurements now climit s) = last_current s"
    using arg_cong [OF F, of last_current] by simp
  show "last_temperature (detect_step measurements now climit s) = last_temperature s"
    using arg_cong [OF F, of last_temperature] by simp
  show "voltage_limit (detect_step measurements now climit s) = voltage_limit s"
    using arg_cong [OF F, of voltage_limit] by simp
  show "current_limit (detect_step measurements now climit s) = current_limit s"
    using arg_cong [OF F, of current_limit] by simp
  show "hold_time_limit (detect_step measurements now climit s) = hold_time_limit s"
    using arg_cong [OF F, of hold_time_limit] by simp
  show "hold_elapsed_time (detect_step measurements now climit s) = hold_elapsed_time s"
    using arg_cong [OF F, of hold_elapsed_time] by simp
  show "experiment_stopped_by_hold_time (detect_step measurements now climit s) = experiment_stopped_by_hold_time s"
    using arg_cong [OF F, of experiment_stopped_by_hold_time] by simp
  show "last_flash_log_time (detect_step measurements now climit s) = last_flash_log_time s"
    using arg_cong [OF F, of last_flash_log_time] by simp
  show "last_hold_log_time (detect_step measurements now climit s) = last_hold_log_time s"
    using arg_cong [OF F, of last_hold_log_time] by simp
  show "timer_manager (detect_step measurements now climit s) = timer_manager s"
    using arg_cong [OF F, of timer_manager] by simp
qed


subsection \<open>Writing the outputs\<close>

lemma set_outputs_accepted:
  assumes "outputs_accepted s" "0 \<le> v" "v \<le> 300" "0 \<le> c" "c \<le> 2000"
  shows "fst (set_outputs v c s) = None"
    and "daq_written (daq_controller (snd (set_outputs v c s)))
           = (v * 5 / 300, c * 5 / 2000) # daq_written (daq_controller s)"
  using assms
  by (auto simp: set_outputs_def daq_set_outputs_def ao_write_def k_write_def
        outputs_accepted_def daq_accepts_def keithley_ready_def ao_accepts_def
        keithley_accepts_def try_except_def logger_def
        daq_written_def VOLTAGE_SCALE_OUTPUT_def CURRENT_SCALE_def Let_def
      split: option.splits list.splits if_splits prod.splits)

lemma set_outputs_refused:
  assumes "\<not> outputs_accepted s"
  shows "\<exists>e rest. fst (set_outputs v c s) = Some e \<and>
           log (snd (set_outputs v c s)) = (ERROR, ''Error setting outputs'') # rest"
  using assms
  by (auto simp: set_outputs_def daq_set_outputs_def ao_write_def k_write_def
        outputs_accepted_def daq_accepts_def keithley_ready_def ao_accepts_def
        keithley_accepts_def try_except_def logger_def
        Let_def
      split: option.splits list.splits if_splits prod.splits)

lemma set_outputs_written:
  "daq_written (daq_controller (snd (set_outputs 0 0 s))) = daq_written (daq_controller s) \<or>
   daq_written (daq_controller (snd (set_outputs 0 0 s)))
     = (0, 0) # daq_written (daq_controller s)"
  by (auto simp: set_outputs_def daq_set_outputs_def ao_write_def k_write_def
        try_except_def logger_def daq_written_def Let_def
      split: option.splits list.splits if_splits prod.splits)

lemma outputs_accepted_cong:
  "daq_controller s' = daq_controller s \<Longrightarrow> pyvisa_available s' = pyvisa_available s \<Longrightarrow>
   keithley s' = keithley s \<Longrightarrow> outputs_accepted s' = outputs_accepted s"
  by (simp add: outputs_accepted_def)

subsection \<open>Stopping\<close>

lemma stop_process_returns: "fst (stop_process s) = None"
  by (simp add: stop_process_def try_except_def Let_def split: prod.splits option.splits)

lemma stop_process_not_running: "\<not> is_running (snd (stop_process s))"
proof -
  define s2 where "s2 = (logger INFO ''Stopping process'' s)\<lparr>is_running := False\<rparr>"
  obtain r s3 where e: "set_outputs 0 0 s2 = (r, s3)"
    by (cases "set_outputs 0 0 s2")
  have "is_running s3 = is_running (snd (set_outputs 0 0 s2))"
    by (simp only: e snd_conv)
  also have "\<dots> = is_running s2"
    by simp
  finally have n: "\<not> is_running s3"
    by (simp add: s2_def)
  have "stop_process s = try_except (set_outputs 0 0 s2)
      (\<lambda>e s'. (None, logger ERROR ''Error stopping process'' s'))"
    by (simp add: stop_process_def Let_def s2_def)
  then show ?thesis
    using n by (cases r) (simp_all add: e try_except_def logger_def)
qed

lemma stop_process_unfold:
  "stop_process s =
    try_except (set_outputs 0 0 ((logger INFO ''Stopping process'' s)\<lparr>is_running := False\<rparr>))
      (\<lambda>e s'. (None, logger ERROR ''Error stopping process'' s'))"
  by (simp add: stop_process_def Let_def)

lemma stop_process_accepted:
  assumes "outputs_accepted s"
  shows "daq_written (daq_controller (snd (stop_process s)))
           = (0, 0) # daq_written (daq_controller s)"
proof -
  let ?s2 = "(logger INFO ''Stopping process'' s)\<lparr>is_running := False\<rparr>"
  have "outputs_accepted ?s2 = outputs_accepted s"
    by (rule outputs_accepted_cong) (simp_all add: logger_def)
  then have acc: "outputs_accepted ?s2"
    using assms by simp
  have d: "daq_controller ?s2 = daq_controller s"
    by (simp add: logger_def)
  obtain r s3 where e: "set_outputs 0 0 ?s2 = (r, s3)"
    by (cases "set_outputs 0 0 ?s2")
  have r: "r = None"
    using set_outputs_accepted(1) [OF acc, of 0 0] by (simp add: e)
  have "daq_written (daq_controller s3) = (0, 0) # daq_written (daq_controller ?s2)"
    using set_outputs_accepted(2) [OF acc, of 0 0] by (simp add: e)
  then show ?thesis
    by (simp add: stop_process_unfold e r try_except_def d)
qed

lemma stop_process_refused:
  assumes "\<not> outputs_accepted s"
  shows "\<exists>rest. log (snd (stop_process s)) = (ERROR, ''Error stopping process'') # rest"
proof -
  let ?s2 = "(logger INFO ''Stopping process'' s)\<lparr>is_running := False\<rparr>"
  have "outputs_accepted ?s2 = outputs_accepted s"
    by (rule outputs_accepted_cong) (simp_all add: logger_def)
  then have acc: "\<not> outputs_accepted ?s2"
    using assms by simp
  obtain r s3 where e: "set_outputs 0 0 ?s2 = (r, s3)"
    by (cases "set_outputs 0 0 ?s2")
  obtain x where r: "r = Some x"
    using set_outputs_refused [OF acc, of 0 0] by (auto simp: e)
  have "stop_process s = (None, logger ERROR ''Error stopping process'' s3)"
    by (simp add: stop_process_unfold e r try_except_def)
  then show ?thesis
    by (simp add: logger_def)
qed

lemma stop_process_written:
  "daq_written (daq_controller (snd (stop_process s))) = daq_written (daq_controller s) \<or>
   daq_written (daq_controller (snd (stop_process s)))
     = (0, 0) # daq_written (daq_controller s)"
proof -
  let ?s2 = "(logger INFO ''Stopping process'' s)\<lparr>is_running := False\<rparr>"
  have d: "daq_controller ?s2 = daq_controller s"
    by (simp add: logger_def)
  obtain r s3 where e: "set_outputs 0 0 ?s2 = (r, s3)"
    by (cases "set_outputs 0 0 ?s2")
  have "daq_written (daq_controller s3) = daq_written (daq_controller ?s2) \<or>
        daq_written (daq_controller s3) = (0, 0) # daq_written (daq_controller ?s2)"
    using set_outputs_written [of ?s2] by (simp add: e)
  moreover have "daq_controller (snd (stop_process s)) = daq_controller s3"
    by (cases r) (simp_all add: stop_process_unfold e try_except_def, simp add: logger_def)
  ultimately show ?thesis
    by (simp add: d)
qed

subsection \<open>The stage never moves back\<close>

lemma incubation_stage_monotone:
  "current_stage s = INCUBATION \<Longrightarrow>
   STAGES (current_stage s) \<le> STAGES (current_stage (snd (incubation_stage now v c climit s)))"
  by (simp add: incubation_stage_def logger_def Let_def split: option.splits prod.splits)

lemma flash_stage_monotone:
  "current_stage s = FLASH \<Longrightarrow>
   STAGES (current_stage s) \<le> STAGES (current_stage (snd (flash_stage now c climit s)))"
  by (simp add: flash_stage_def and_then_def logger_def Let_def split: option.splits prod.splits)

lemma hold_stage_keeps_stage:
  "current_stage (snd (hold_stage now hold_time s)) = current_stage s"
proof -
  have a: "\<And>x. current_stage (snd (and_then (set_outputs 0 0 x)
        (\<lambda>s8. and_then (stop_process s8)
           (\<lambda>s9. (None, s9\<lparr>experiment_stopped_by_hold_time := True\<rparr>))))) = current_stage x"
  proof -
    fix x
    obtain r s8 where e: "set_outputs 0 0 x = (r, s8)"
      by (cases "set_outputs 0 0 x")
    have "current_stage s8 = current_stage (snd (set_outputs 0 0 x))"
      by (simp only: e snd_conv)
    then have c8: "current_stage s8 = current_stage x"
      by simp
    obtain q s9 where f: "stop_process s8 = (q, s9)"
      by (cases "stop_process s8")
    have "current_stage s9 = current_stage (snd (stop_process s8))"
      by (simp only: f snd_conv)
    then have c9: "current_stage s9 = current_stage s8"
      by simp
    show "current_stage (snd (and_then (set_outputs 0 0 x)
        (\<lambda>s8. and_then (stop_process s8)
           (\<lambda>s9. (None, s9\<lparr>experiment_stopped_by_hold_time := True\<rparr>))))) = current_stage x"
      using c8 c9 by (cases r; cases q) (simp_all add: and_then_def e f)
  qed
  show ?thesis
    by (simp add: hold_stage_def Let_def a logger_def split: option.splits)
qed

lemma shutdown_stage_keeps_stage:
  "current_stage (snd (shutdown_stage now hold_current s)) = current_stage s"
  by (simp add: shutdown_stage_def Let_def logger_def)

lemma update_stage_on_branch:
  "update_stage_on (voltage, current, temperature) now dt hc climit ht tt s =
    (case current_stage s of
       DWELL \<Rightarrow> dwell_stage (now - start_time s) dt tt temperature
                  (detect_step (voltage, current, temperature) now climit s)
     | INCUBATION \<Rightarrow> incubation_stage now voltage current climit
                  (detect_step (voltage, current, temperature) now climit s)
     | FLASH \<Rightarrow> flash_stage now current climit
                  (detect_step (voltage, current, temperature) now climit s)
     | HOLD \<Rightarrow> hold_stage now ht (detect_step (voltage, current, temperature) now climit s)
     | SHUTDOWN \<Rightarrow> shutdown_stage now hc
                  (detect_step (voltage, current, temperature) now climit s))"
  by (simp add: update_stage_on_def Let_def)

lemma update_stage_on_monotone:
  "STAGES (current_stage s) \<le>
   STAGES (current_stage (snd (update_stage_on m now dt hc climit ht tt s)))"
proof -
  obtain voltage current temperature where m: "m = (voltage, current, temperature)"
    by (cases m)
  let ?s1 = "detect_step (voltage, current, temperature) now climit s"
  have cs: "current_stage ?s1 = current_stage s"
    by simp
  note u = update_stage_on_branch [of voltage current temperature now dt hc climit ht tt s]
  show ?thesis
  proof (cases "current_stage s")
    case DWELL
    then show ?thesis by simp
  next
    case INCUBATION
    then show ?thesis
      using cs incubation_stage_monotone [of ?s1 now voltage current climit] by (simp add: u m)
  next
    case FLASH
    then show ?thesis
      using cs flash_stage_monotone [of ?s1 now current climit] by (simp add: u m)
  next
    case HOLD
    then show ?thesis
      using cs by (simp add: u m hold_stage_keeps_stage)
  next
    case SHUTDOWN
    then show ?thesis
      using cs by (simp add: u m shutdown_stage_keeps_stage)
  qed
qed

lemma update_stage_monotone:
  "STAGES (current_stage s) \<le>
   STAGES (current_stage (snd (update_stage env now dt hc climit ht tt s)))"
proof (cases "is_running s")
  case False
  then show ?thesis by (simp add: update_stage_def)
next
  case True
  obtain m s0 where g: "get_measurements env s = (m, s0)"
    by (cases "get_measurements env s")
  have "current_stage s0 = current_stage (snd (get_measurements env s))"
    by (simp only: g snd_conv)
  then have c0: "current_stage s0 = current_stage s"
    by simp
  show ?thesis
    using True update_stage_on_monotone [of s0 m now dt hc climit ht tt]
    by (simp add: update_stage_def g c0)
qed

lemma apply_voltage_current_limits_stage:
  "current_stage (snd (apply_voltage_current_limits s)) = current_stage s"
  by (simp add: apply_voltage_current_limits_def logger_def Let_def
      split: prod.splits option.splits)

lemma start_process_resets_stage:
  "current_stage (snd (start_process True True now voltage current s)) = DWELL"
  by (simp add: start_process_def Let_def logger_def apply_voltage_current_limits_stage
        set_voltage_current_limits_def reset_cv_cc_tracking_def)

lemma start_process_refused:
  "start_process False kc now voltage current s = (Some (RuntimeError ''DAQ not connected''), s)"
  "start_process True False now voltage current s =
     (Some (RuntimeError ''Keithley not connected''), s)"
  by (simp_all add: start_process_def)

text \<open>The tail of the HOLD branch once the limit is reached.\<close>

lemma hold_terminate_tail:
  assumes acc: "outputs_accepted x"
  defines "r \<equiv> and_then (set_outputs 0 0 x)
        (\<lambda>s8. and_then (stop_process s8)
           (\<lambda>s9. (None, s9\<lparr>experiment_stopped_by_hold_time := True\<rparr>)))"
  shows "fst r = None"
    and "\<not> is_running (snd r)"
    and "experiment_stopped_by_hold_time (snd r)"
    and "current_stage (snd r) = current_stage x"
    and "hold_elapsed_time (snd r) = hold_elapsed_time x"
    and "\<exists>rest. daq_written (daq_controller (snd r)) = (0, 0) # rest"
proof -
  obtain q s8 where e: "set_outputs 0 0 x = (q, s8)"
    by (cases "set_outputs 0 0 x")
  have q: "q = None"
    using set_outputs_accepted(1) [OF acc, of 0 0] by (simp add: e)
  have w8: "daq_written (daq_controller s8) = (0, 0) # daq_written (daq_controller x)"
    using set_outputs_accepted(2) [OF acc, of 0 0] by (simp add: e)
  have "current_stage s8 = current_stage (snd (set_outputs 0 0 x))"
    by (simp only: e snd_conv)
  then have c8: "current_stage s8 = current_stage x"
    by simp
  have "hold_elapsed_time s8 = hold_elapsed_time (snd (set_outputs 0 0 x))"
    by (simp only: e snd_conv)
  then have h8: "hold_elapsed_time s8 = hold_elapsed_time x"
    by simp
  obtain p s9 where f: "stop_process s8 = (p, s9)"
    by (cases "stop_process s8")
  have p: "p = None"
    using stop_process_returns [of s8] by (simp add: f)
  have n9: "\<not> is_running s9"
    using stop_process_not_running [of s8] by (simp add: f)
  have "current_stage s9 = current_stage (snd (stop_process s8))"
    by (simp only: f snd_conv)
  then have c9: "current_stage s9 = current_stage s8"
    by simp
  have "hold_elapsed_time s9 = hold_elapsed_time (snd (stop_process s8))"
    by (simp only: f snd_conv)
  then have h9: "hold_elapsed_time s9 = hold_elapsed_time s8"
    by simp
  have w9: "\<exists>rest. daq_written (daq_controller s9) = (0, 0) # rest"
    using stop_process_written [of s8] w8 by (auto simp: f)
  have r: "r = (None, s9\<lparr>experiment_stopped_by_hold_time := True\<rparr>)"
    by (simp add: r_def and_then_def e q f p)
  show "fst r = None" by (simp add: r)
  show "\<not> is_running (snd r)" using n9 by (simp add: r)
  show "experiment_stopped_by_hold_time (snd r)" by (simp add: r)
  show "current_stage (snd r) = current_stage x" using c8 c9 by (simp add: r)
  show "hold_elapsed_time (snd r) = hold_elapsed_time x" using h8 h9 by (simp add: r)
  show "\<exists>rest. daq_written (daq_controller (snd r)) = (0, 0) # rest" using w9 by (simp add: r)
qed

subsection \<open>The CV/CC detector\<close>

lemma detect_enter_cc:
  "power_supply_mode s = CV \<and> current \<ge> 0.95 * climit \<longrightarrow>
      fst (detect_cv_cc_transition now voltage current climit s) \<and>
      power_supply_mode (snd (detect_cv_cc_transition now voltage current climit s)) = CC \<and>
      voltage_before_cc (snd (detect_cv_cc_transition now voltage current climit s)) = Some voltage \<and>
      cv_cc_transition_time (snd (detect_cv_cc_transition now voltage current climit s)) = Some now \<and>
      current_limit_reached (snd (detect_cv_cc_transition now voltage current climit s))"
  by (simp add: detect_cv_cc_transition_def logger_def Let_def)

lemma detect_back_to_cv:
  "power_supply_mode s = CC \<and> current < 0.8 * climit \<longrightarrow>
      fst (detect_cv_cc_transition now voltage current climit s) \<and>
      power_supply_mode (snd (detect_cv_cc_transition now voltage current climit s)) = CV \<and>
      \<not> current_limit_reached (snd (detect_cv_cc_transition now voltage current climit s))"
  by (simp add: detect_cv_cc_transition_def logger_def Let_def)

lemma detect_no_transition:
  "\<not> (power_supply_mode s = CV \<and> current \<ge> 0.95 * climit) \<and>
    \<not> (power_supply_mode s = CC \<and> current < 0.8 * climit) \<longrightarrow>
      detect_cv_cc_transition now voltage current climit s = (False, s)"
proof
  assume h: "\<not> (power_supply_mode s = CV \<and> current \<ge> 0.95 * climit) \<and>
    \<not> (power_supply_mode s = CC \<and> current < 0.8 * climit)"
  from h have a: "\<not> (power_supply_mode s = CV \<and> current \<ge> 0.95 * climit)"
    by (rule conjunct1)
  from h have b: "\<not> (power_supply_mode s = CC \<and> current < 0.8 * climit)"
    by (rule conjunct2)
  show "detect_cv_cc_transition now voltage current climit s = (False, s)"
    unfolding detect_cv_cc_transition_def Let_def using a b by (simp only: if_False)
qed

lemma detect_feed_example:
  "power_supply_mode s = CV \<longrightarrow>
      feed now voltage 100 [50, 96, 97, 70] s = [(False, CV), (True, CC), (False, CC), (True, CV)]"
  by (simp add: detect_cv_cc_transition_def logger_def Let_def)

text \<open>
  C2. The detector is a two-threshold hysteresis classifier. In mode CV with
  \<open>current \<ge> 0.95 * current_limit\<close> it switches to CC, records \<open>voltage_before_cc\<close> and
  the transition time, sets \<open>current_limit_reached\<close> and reports a transition; in mode
  CC with \<open>current < 0.8 * current_limit\<close> it switches to CV, clears
  \<open>current_limit_reached\<close> and reports a transition; in every other case it reports no
  transition and leaves the state as it is. With limit 100 and currents 50, 96, 97, 70
  from mode CV, the modes are CV, CC, CC, CV, with the CV-to-CC transition reported at
  index 1 and the CC-to-CV transition at index 3, and none elsewhere.
\<close>

theorem detector_hysteresis:
  "(power_supply_mode s = CV \<and> current \<ge> 0.95 * climit \<longrightarrow>
      fst (detect_cv_cc_transition now voltage current climit s) \<and>
      power_supply_mode (snd (detect_cv_cc_transition now voltage current climit s)) = CC \<and>
      voltage_before_cc (snd (detect_cv_cc_transition now voltage current climit s)) = Some voltage \<and>
      cv_cc_transition_time (snd (detect_cv_cc_transition now voltage current climit s)) = Some now \<and>
      current_limit_reached (snd (detect_cv_cc_transition now voltage current climit s))) \<and>
   (power_supply_mode s = CC \<and> current < 0.8 * climit \<longrightarrow>
      fst (detect_cv_cc_transition now voltage current climit s) \<and>
      power_supply_mode (snd (detect_cv_cc_transition now voltage current climit s)) = CV \<and>
      \<not> current_limit_reached (snd (detect_cv_cc_transition now voltage current climit s))) \<and>
   (\<not> (power_supply_mode s = CV \<and> current \<ge> 0.95 * climit) \<and>
    \<not> (power_supply_mode s = CC \<and> current < 0.8 * climit) \<longrightarrow>
      detect_cv_cc_transition now voltage current climit s = (False, s)) \<and>
   (power_supply_mode s = CV \<longrightarrow>
      feed now voltage 100 [50, 96, 97, 70] s = [(False, CV), (True, CC), (False, CC), (True, CV)])"
  by (intro conjI detect_enter_cc detect_back_to_cv detect_no_transition detect_feed_example)

theorem detector_hysteresis_witness:
  "power_supply_mode (DeviceController_init daq_ready True None) = CV \<and>
   (96::real) \<ge> 0.95 * 100 \<and>
   fst (detect_cv_cc_transition 7 120 96 100 (DeviceController_init daq_ready True None)) \<and>
   power_supply_mode
     (snd (detect_cv_cc_transition 7 120 96 100 (DeviceController_init daq_ready True None))) = CC \<and>
   voltage_before_cc
     (snd (detect_cv_cc_transition 7 120 96 100 (DeviceController_init daq_ready True None)))
     = Some 120 \<and>
   feed 7 120 100 [50, 96, 97, 70] (DeviceController_init daq_ready True None)
     = [(False, CV), (True, CC), (False, CC), (True, CV)]"
proof -
  have m: "power_supply_mode (DeviceController_init daq_ready True None) = CV"
    by (simp add: DeviceController_init_def)
  have c: "(96::real) \<ge> 0.95 * 100"
    by simp
  show ?thesis
    using m c detector_hysteresis [where s = "DeviceController_init daq_ready True None"
        and current = 96 and climit = 100 and now = 7 and voltage = 120]
    by simp
qed

subsection \<open>Output validation\<close>

text \<open>
  C4. \<^verbatim>\<open>DAQController.set_outputs\<close> rejects a voltage outside [0, 300] or a current
  outside [0, 2000] with an error and leaves the hardware untouched: nothing is clamped or
  scaled. An in-range pair is never altered: when the output task exists and the driver
  takes the write, exactly \<open>(voltage * 5 / 300, current * 5 / 2000)\<close> is written; when
  there is no output task the call raises \<^verbatim>\<open>RuntimeError\<close>, and when the driver raises
  its error is passed on, with nothing written in either case.
\<close>

theorem set_outputs_rejects_out_of_range:
  "(voltage < 0 \<or> 300 < voltage \<or> current < 0 \<or> 2000 < current \<longrightarrow>
      fst (daq_set_outputs voltage current d) \<noteq> None \<and>
      snd (daq_set_outputs voltage current d) = d) \<and>
   (0 \<le> voltage \<and> voltage \<le> 300 \<and> 0 \<le> current \<and> current \<le> 2000 \<longrightarrow>
      (case (if nidaqmx_available d then ao_task d else None) of
         None \<Rightarrow>
           daq_set_outputs voltage current d =
             (Some (RuntimeError ''DAQ not available - cannot set outputs''), d)
       | Some task \<Rightarrow>
           (if ao_accepts task
            then fst (daq_set_outputs voltage current d) = None \<and>
                 daq_written (snd (daq_set_outputs voltage current d)) =
                   (voltage * 5 / 300, current * 5 / 2000) # daq_written d
            else fst (daq_set_outputs voltage current d) = Some DriverError \<and>
                 daq_written (snd (daq_set_outputs voltage current d)) = daq_written d)))"
  by (auto simp: daq_set_outputs_def ao_write_def daq_written_def ao_accepts_def
        VOLTAGE_SCALE_OUTPUT_def CURRENT_SCALE_def Let_def
      split: option.splits list.splits if_splits)

theorem set_outputs_rejects_out_of_range_witness:
  "(300::real) < 301 \<and>
   fst (daq_set_outputs 301 10 daq_ready) \<noteq> None \<and>
   snd (daq_set_outputs 301 10 daq_ready) = daq_ready \<and>
   fst (daq_set_outputs 150 160 daq_ready) = None \<and>
   daq_written (snd (daq_set_outputs 150 160 daq_ready)) = [(2.5, 0.4)]"
  using set_outputs_rejects_out_of_range [where voltage = 301 and current = 10 and d = daq_ready]
    set_outputs_rejects_out_of_range [where voltage = 150 and current = 160 and d = daq_ready]
  by (simp add: daq_ready_def ao_accepts_def daq_written_def)

subsection \<open>Limits from the sample parameters\<close>

text \<open>
  C9, amended. \<^verbatim>\<open>update_parameters\<close> derives \<open>voltage = field * distance\<close> and
  \<open>current = density * width * thickness\<close> and stores exactly those values as the
  device controller's \<open>voltage_limit\<close> and \<open>current_limit\<close>, without applying them:
  the call writes nothing to the DAQ or to the source meter, and it leaves
  \<^verbatim>\<open>MainController.current_limit\<close>, the limit the control tick passes to
  \<^verbatim>\<open>update_stage\<close>, as it was. For distance 0.4, width 1.6, thickness 1.0, field 30 and
  density 100 the stored limits are 12 V and 160 mA.
\<close>

theorem update_parameters_stores_limits:
  "voltage_limit (mc_device_controller
      (update_parameters electrical_distance width thickness electric_field current_density m))
     = electric_field * electrical_distance \<and>
   current_limit (mc_device_controller
      (update_parameters electrical_distance width thickness electric_field current_density m))
     = current_density * width * thickness \<and>
   daq_controller (mc_device_controller
      (update_parameters electrical_distance width thickness electric_field current_density m))
     = daq_controller (mc_device_controller m) \<and>
   keithley (mc_device_controller
      (update_parameters electrical_distance width thickness electric_field current_density m))
     = keithley (mc_device_controller m) \<and>
   mc_current_limit
      (update_parameters electrical_distance width thickness electric_field current_density m)
     = mc_current_limit m \<and>
   voltage_limit (mc_device_controller (update_parameters 0.4 1.6 1.0 30 100 m)) = 12.0 \<and>
   current_limit (mc_device_controller (update_parameters 0.4 1.6 1.0 30 100 m)) = 160"
  by (simp add: update_parameters_def set_voltage_current_limits_def logger_def Let_def)

text \<open>
  C9 as stated fails: the derived values are not applied. On a freshly built controller
  with working instruments, after \<^verbatim>\<open>update_parameters(0.4, 1.6, 1.0, 30, 100)\<close> nothing
  has been written to the DAQ outputs or to the source meter and the control tick's limit
  is still 60 mA; it takes \<^verbatim>\<open>apply_voltage_current_limits\<close> to write the scaled pair
  (0.2, 0.4) to the DAQ and 0.16 A to the source meter.
\<close>

theorem update_parameters_applies_nothing:
  "daq_written (daq_controller (mc_device_controller main_ready)) = [] \<and>
   daq_written (daq_controller (mc_device_controller
      (update_parameters 0.4 1.6 1.0 30 100 main_ready))) = [] \<and>
   keithley (mc_device_controller (update_parameters 0.4 1.6 1.0 30 100 main_ready))
     = Some \<lparr>k_written = [], k_faults = []\<rparr> \<and>
   mc_current_limit (update_parameters 0.4 1.6 1.0 30 100 main_ready) = 60 \<and>
   daq_written (daq_controller (snd (apply_voltage_current_limits (mc_device_controller
      (update_parameters 0.4 1.6 1.0 30 100 main_ready))))) = [(0.2, 0.4)] \<and>
   keithley (snd (apply_voltage_current_limits (mc_device_controller
      (update_parameters 0.4 1.6 1.0 30 100 main_ready))))
     = Some \<lparr>k_written = [CURR 0.16], k_faults = []\<rparr>"
  by (simp add: main_ready_def MainController_init_def DeviceController_init_def daq_ready_def
      keithley_idle_def update_parameters_def set_voltage_current_limits_def
      apply_voltage_current_limits_def daq_set_outputs_def ao_write_def k_write_def
      daq_written_def logger_def Let_def VOLTAGE_SCALE_OUTPUT_def CURRENT_SCALE_def)

subsection \<open>Stage order\<close>

text \<open>
  C6. Within a run the stage is monotonic non-decreasing over
  DWELL < INCUBATION < FLASH < HOLD < SHUTDOWN: no call of \<^verbatim>\<open>update_stage\<close>, whatever
  the readings, the clock and the parameters, moves the stage to an earlier value.
  \<^verbatim>\<open>stop_process\<close> ends the run and leaves the stage where it is, and so do the methods
  that set outputs and limits; \<^verbatim>\<open>start_process\<close>, when both instruments are connected,
  is what puts the stage back to DWELL, and when it refuses to start it changes nothing.
\<close>

theorem stage_monotone:
  "STAGES (current_stage s) \<le>
     STAGES (current_stage
       (snd (update_stage env now dwell_time hold_current climit hold_time target_temperature s))) \<and>
   current_stage (snd (stop_process s)) = current_stage s \<and>
   \<not> is_running (snd (stop_process s)) \<and>
   current_stage (snd (set_outputs voltage current s)) = current_stage s \<and>
   current_stage (snd (set_voltage_current_limits voltage current s)) = current_stage s \<and>
   current_stage (snd (apply_voltage_current_limits s)) = current_stage s \<and>
   current_stage (snd (start_process True True now voltage current s)) = DWELL \<and>
   snd (start_process False keithley_connected now voltage current s) = s \<and>
   snd (start_process True False now voltage current s) = s"
  by (simp add: update_stage_monotone stop_process_not_running
        start_process_resets_stage start_process_refused apply_voltage_current_limits_stage
        set_voltage_current_limits_def logger_def)

subsection \<open>Stopping never raises\<close>

text \<open>
  C7. \<^verbatim>\<open>stop_process\<close> never raises, in any state of the devices: it returns normally
  with \<open>is_running\<close> false. It tries to set both outputs to zero: when the instruments
  accept the write, (0, 0) is written; when they do not, the failure is logged as an
  error and swallowed.
\<close>

theorem stop_process_never_raises:
  "fst (stop_process s) = None \<and>
   \<not> is_running (snd (stop_process s)) \<and>
   (outputs_accepted s \<longrightarrow>
      daq_written (daq_controller (snd (stop_process s)))
        = (0, 0) # daq_written (daq_controller s)) \<and>
   (\<not> outputs_accepted s \<longrightarrow>
      (\<exists>rest. log (snd (stop_process s)) = (ERROR, ''Error stopping process'') # rest))"
  using stop_process_returns [of s] stop_process_not_running [of s]
    stop_process_accepted [of s] stop_process_refused [of s]
  by blast

theorem stop_process_never_raises_witness:
  "outputs_accepted (DeviceController_init daq_ready True None) \<and>
   fst (stop_process (DeviceController_init daq_ready True None)) = None \<and>
   daq_written (daq_controller (snd (stop_process (DeviceController_init daq_ready True None))))
     = [(0, 0)] \<and>
   \<not> outputs_accepted (DeviceController_init daq_missing True None) \<and>
   fst (stop_process (DeviceController_init daq_missing True None)) = None \<and>
   \<not> is_running (snd (stop_process (DeviceController_init daq_missing True None))) \<and>
   (\<exists>rest. log (snd (stop_process (DeviceController_init daq_missing True None)))
      = (ERROR, ''Error stopping process'') # rest)"
proof -
  have a: "outputs_accepted (DeviceController_init daq_ready True None)"
    by (simp add: outputs_accepted_def daq_accepts_def keithley_ready_def
        DeviceController_init_def daq_ready_def ao_accepts_def)
  have b: "\<not> outputs_accepted (DeviceController_init daq_missing True None)"
    by (simp add: outputs_accepted_def daq_accepts_def DeviceController_init_def daq_missing_def)
  have w: "daq_written (daq_controller (DeviceController_init daq_ready True None)) = []"
    by (simp add: DeviceController_init_def daq_ready_def daq_written_def)
  show ?thesis
    using a b w stop_process_never_raises [of "DeviceController_init daq_ready True None"]
      stop_process_never_raises [of "DeviceController_init daq_missing True None"]
    by simp
qed

text \<open>The definitions a concrete tick is evaluated with.\<close>

lemmas tick_defs =
  update_stage_def get_measurements_def read_sample_voltage_improved_def
  read_keithley_current_improved_def update_stage_on_def detect_step_def
  detect_cv_cc_transition_def dwell_stage_def incubation_stage_def
  update_timer_periods_for_stage_def logger_def Let_def DeviceController_init_def

subsection \<open>The hold-time limit\<close>

lemma hold_stage_terminates:
  assumes "flash_start_time s = Some t0" "hold_time \<le> now - t0" "outputs_accepted s"
  shows "fst (hold_stage now hold_time s) = None"
    and "\<not> is_running (snd (hold_stage now hold_time s))"
    and "experiment_stopped_by_hold_time (snd (hold_stage now hold_time s))"
    and "hold_elapsed_time (snd (hold_stage now hold_time s)) = now - t0"
    and "\<exists>rest. daq_written (daq_controller (snd (hold_stage now hold_time s))) = (0, 0) # rest"
  using assms
  by (cases "last_hold_log_time s";
      simp add: hold_stage_def Let_def logger_def hold_terminate_tail outputs_accepted_def)+

lemma hold_stage_continues:
  assumes "flash_start_time s = Some t0" "now - t0 < hold_time"
  shows "fst (hold_stage now hold_time s) = None"
    and "is_running (snd (hold_stage now hold_time s)) = is_running s"
    and "experiment_stopped_by_hold_time (snd (hold_stage now hold_time s))
           = experiment_stopped_by_hold_time s"
    and "hold_elapsed_time (snd (hold_stage now hold_time s)) = now - t0"
    and "daq_controller (snd (hold_stage now hold_time s)) = daq_controller s"
    and "keithley (snd (hold_stage now hold_time s)) = keithley s"
  using assms
  by (cases "last_hold_log_time s"; simp add: hold_stage_def Let_def logger_def)+

lemma hold_stage_elapsed:
  assumes "flash_start_time s = Some t0"
  shows "hold_elapsed_time (snd (hold_stage now hold_time s)) = now - t0"
proof (cases "hold_time \<le> now - t0")
  case False
  then show ?thesis using hold_stage_continues(4) [OF assms, of now hold_time] by simp
next
  case True
  have a: "\<And>x. hold_elapsed_time (snd (and_then (set_outputs 0 0 x)
        (\<lambda>s8. and_then (stop_process s8)
           (\<lambda>s9. (None, s9\<lparr>experiment_stopped_by_hold_time := True\<rparr>))))) = hold_elapsed_time x"
  proof -
    fix x
    obtain r s8 where e: "set_outputs 0 0 x = (r, s8)"
      by (cases "set_outputs 0 0 x")
    have "hold_elapsed_time s8 = hold_elapsed_time (snd (set_outputs 0 0 x))"
      by (simp only: e snd_conv)
    then have c8: "hold_elapsed_time s8 = hold_elapsed_time x"
      by simp
    obtain q s9 where f: "stop_process s8 = (q, s9)"
      by (cases "stop_process s8")
    have "hold_elapsed_time s9 = hold_elapsed_time (snd (stop_process s8))"
      by (simp only: f snd_conv)
    then have c9: "hold_elapsed_time s9 = hold_elapsed_time s8"
      by simp
    show "hold_elapsed_time (snd (and_then (set_outputs 0 0 x)
        (\<lambda>s8. and_then (stop_process s8)
           (\<lambda>s9. (None, s9\<lparr>experiment_stopped_by_hold_time := True\<rparr>))))) = hold_elapsed_time x"
      using c8 c9 by (cases r; cases q) (simp_all add: and_then_def e f)
  qed
  show ?thesis
    using assms True
    by (cases "last_hold_log_time s"; simp add: hold_stage_def Let_def logger_def a)
qed

lemma update_stage_running:
  "is_running s \<Longrightarrow>
   update_stage env now dt hc climit ht tt s =
     update_stage_on (fst (get_measurements env s)) now dt hc climit ht tt
       (snd (get_measurements env s))"
  by (simp add: update_stage_def split: prod.splits)

lemma update_stage_in_hold:
  assumes "is_running s" "current_stage s = HOLD"
  shows "update_stage env now dt hc climit ht tt s =
           hold_stage now ht
             (detect_step (fst (get_measurements env s)) now climit (snd (get_measurements env s)))"
proof -
  obtain voltage current temperature s0
    where g: "get_measurements env s = ((voltage, current, temperature), s0)"
    by (cases "get_measurements env s") auto
  have "current_stage s0 = current_stage (snd (get_measurements env s))"
    by (simp only: g snd_conv)
  then have c0: "current_stage s0 = HOLD"
    using assms by simp
  show ?thesis
    using assms c0 by (simp add: update_stage_def g update_stage_on_branch)
qed

text \<open>
  \<open>flash_start_time\<close> is a number in every state the code builds: \<^verbatim>\<open>__init__\<close> sets it
  to 0 and no operation assigns \<^verbatim>\<open>None\<close>.
\<close>

lemma hold_stage_flash_start_time:
  "flash_start_time s \<noteq> None \<Longrightarrow> flash_start_time (snd (hold_stage now hold_time s)) \<noteq> None"
proof -
  have a: "\<And>x. flash_start_time (snd (and_then (set_outputs 0 0 x)
        (\<lambda>s8. and_then (stop_process s8)
           (\<lambda>s9. (None, s9\<lparr>experiment_stopped_by_hold_time := True\<rparr>))))) = flash_start_time x"
  proof -
    fix x
    obtain r s8 where e: "set_outputs 0 0 x = (r, s8)"
      by (cases "set_outputs 0 0 x")
    have "flash_start_time s8 = flash_start_time (snd (set_outputs 0 0 x))"
      by (simp only: e snd_conv)
    then have c8: "flash_start_time s8 = flash_start_time x"
      by simp
    obtain q s9 where f: "stop_process s8 = (q, s9)"
      by (cases "stop_process s8")
    have "flash_start_time s9 = flash_start_time (snd (stop_process s8))"
      by (simp only: f snd_conv)
    then have c9: "flash_start_time s9 = flash_start_time s8"
      by simp
    show "flash_start_time (snd (and_then (set_outputs 0 0 x)
        (\<lambda>s8. and_then (stop_process s8)
           (\<lambda>s9. (None, s9\<lparr>experiment_stopped_by_hold_time := True\<rparr>))))) = flash_start_time x"
      using c8 c9 by (cases r; cases q) (simp_all add: and_then_def e f)
  qed
  assume "flash_start_time s \<noteq> None"
  then show ?thesis
    by (auto simp: hold_stage_def Let_def a logger_def split: option.splits)
qed

lemma dwell_stage_flash_start_time:
  "flash_start_time (snd (dwell_stage ct dt tt temp s)) = flash_start_time s"
  by (simp add: dwell_stage_def Let_def logger_def)

lemma incubation_stage_flash_start_time:
  "flash_start_time s \<noteq> None \<Longrightarrow>
   flash_start_time (snd (incubation_stage now v c climit s)) \<noteq> None"
  by (simp add: incubation_stage_def Let_def logger_def split: option.splits)

lemma flash_stage_flash_start_time:
  "flash_start_time (snd (flash_stage now c climit s)) = flash_start_time s"
  by (cases "last_flash_log_time s"; cases c)
    (auto simp: flash_stage_def and_then_def Let_def logger_def split: option.splits)

lemma shutdown_stage_flash_start_time:
  "flash_start_time (snd (shutdown_stage now hc s)) = flash_start_time s"
  by (simp add: shutdown_stage_def Let_def logger_def)

lemma flash_start_time_stays_set:
  assumes "flash_start_time s \<noteq> None"
  shows "flash_start_time (snd (update_stage env now dt hc climit ht tt s)) \<noteq> None"
proof (cases "is_running s")
  case False
  then show ?thesis using assms by (simp add: update_stage_def)
next
  case True
  obtain v c t where m: "fst (get_measurements env s) = (v, c, t)"
    by (cases "fst (get_measurements env s)")
  let ?s1 = "detect_step (v, c, t) now climit (snd (get_measurements env s))"
  have f1: "flash_start_time ?s1 \<noteq> None"
    using assms by simp
  note u = update_stage_on_branch [of v c t now dt hc climit ht tt "snd (get_measurements env s)"]
  have r: "update_stage env now dt hc climit ht tt s =
      update_stage_on (v, c, t) now dt hc climit ht tt (snd (get_measurements env s))"
    using update_stage_running [OF True] by (simp add: m)
  show ?thesis
  proof (cases "current_stage (snd (get_measurements env s))")
    case DWELL
    then show ?thesis
      using f1 by (simp add: r u dwell_stage_flash_start_time)
  next
    case INCUBATION
    then show ?thesis
      using incubation_stage_flash_start_time [OF f1] by (simp add: r u)
  next
    case FLASH
    then show ?thesis
      using f1 by (simp add: r u flash_stage_flash_start_time)
  next
    case HOLD
    then show ?thesis
      using hold_stage_flash_start_time [OF f1] by (simp add: r u)
  next
    case SHUTDOWN
    then show ?thesis
      using f1 by (simp add: r u shutdown_stage_flash_start_time)
  qed
qed

lemma flash_start_time_initially_set:
  "flash_start_time (DeviceController_init daq pyvisa k) = Some 0"
  "flash_start_time (snd (start_process dc kc now voltage current s)) = flash_start_time s"
  by (simp_all add: DeviceController_init_def start_process_def Let_def logger_def
      reset_cv_cc_tracking_def set_voltage_current_limits_def apply_voltage_current_limits_def
      split: prod.splits option.splits)

text \<open>
  The HOLD branch when the instruments accept the command that zeroes the outputs. On
  every control tick of a running process in stage HOLD, the hold elapsed time is
  \<open>now - flash_start_time\<close> (the attribute is a number from \<^verbatim>\<open>__init__\<close> on;
  \<open>hold_start_time\<close> is not used for it). On the tick where it has reached
  \<open>hold_time\<close>, (0, 0) is written, the process is stopped,
  \<open>experiment_stopped_by_hold_time\<close> is set and the stage is still HOLD, not SHUTDOWN.
  On a tick where it is below the limit the process stays running in HOLD with its outputs
  untouched.
\<close>

lemma hold_limit_stops_run:
  fixes s :: device_controller and env :: instruments
    and now dwell_time hold_current climit hold_time t0 :: real
    and target_temperature :: "real option"
  assumes "is_running s" and "current_stage s = HOLD" and "flash_start_time s = Some t0"
  defines "r \<equiv> update_stage env now dwell_time hold_current climit hold_time target_temperature s"
  shows "hold_elapsed_time (snd r) = now - t0 \<and>
     (hold_time \<le> now - t0 \<and> outputs_accepted s \<longrightarrow>
        fst r = None \<and> \<not> is_running (snd r) \<and> experiment_stopped_by_hold_time (snd r) \<and>
        current_stage (snd r) = HOLD \<and>
        (\<exists>rest. daq_written (daq_controller (snd r)) = (0, 0) # rest)) \<and>
     (now - t0 < hold_time \<longrightarrow>
        fst r = None \<and> is_running (snd r) \<and> current_stage (snd r) = HOLD \<and>
        experiment_stopped_by_hold_time (snd r) = experiment_stopped_by_hold_time s \<and>
        daq_controller (snd r) = daq_controller s \<and> keithley (snd r) = keithley s)"
proof -
  let ?s1 = "detect_step (fst (get_measurements env s)) now climit (snd (get_measurements env s))"
  have r: "r = hold_stage now hold_time ?s1"
    unfolding r_def using assms(1,2) by (rule update_stage_in_hold)
  have f1: "flash_start_time ?s1 = Some t0"
    using assms(3) by simp
  have run1: "is_running ?s1"
    using assms(1) by simp
  have st1: "current_stage ?s1 = HOLD"
    using assms(2) by simp
  have acc1: "outputs_accepted ?s1 = outputs_accepted s"
    by (rule outputs_accepted_cong) simp_all
  have st: "current_stage (snd r) = HOLD"
    using st1 by (simp add: r hold_stage_keeps_stage)
  have el: "hold_elapsed_time (snd r) = now - t0"
    unfolding r using f1 by (rule hold_stage_elapsed)
  have stop: "fst r = None \<and> \<not> is_running (snd r) \<and> experiment_stopped_by_hold_time (snd r) \<and>
        (\<exists>rest. daq_written (daq_controller (snd r)) = (0, 0) # rest)"
    if "hold_time \<le> now - t0" "outputs_accepted s"
  proof -
    have a: "outputs_accepted ?s1" using that(2) acc1 by simp
    show ?thesis
      unfolding r
      using hold_stage_terminates(1,2,3,5) [OF f1 that(1) a] by blast
  qed
  have cont: "fst r = None \<and> is_running (snd r) \<and>
        experiment_stopped_by_hold_time (snd r) = experiment_stopped_by_hold_time s \<and>
        daq_controller (snd r) = daq_controller s \<and> keithley (snd r) = keithley s"
    if "now - t0 < hold_time"
    unfolding r
    using hold_stage_continues(1,2,3,5,6) [OF f1 that] run1 by simp
  show ?thesis
    using st el stop cont by blast
qed

lemma hold_limit_stops_run_example:
  "is_running (hold_running daq_ready) \<and> current_stage (hold_running daq_ready) = HOLD \<and>
   flash_start_time (hold_running daq_ready) = Some 100 \<and>
   outputs_accepted (hold_running daq_ready) \<and>
   hold_elapsed_time
     (snd (update_stage (readings 150) 109.9 0 60 160 10 None (hold_running daq_ready))) = 9.9 \<and>
   is_running (snd (update_stage (readings 150) 109.9 0 60 160 10 None (hold_running daq_ready))) \<and>
   current_stage (snd (update_stage (readings 150) 109.9 0 60 160 10 None (hold_running daq_ready)))
     = HOLD \<and>
   \<not> is_running (snd (update_stage (readings 150) 110.1 0 60 160 10 None (hold_running daq_ready))) \<and>
   experiment_stopped_by_hold_time
     (snd (update_stage (readings 150) 110.1 0 60 160 10 None (hold_running daq_ready))) \<and>
   current_stage (snd (update_stage (readings 150) 110.1 0 60 160 10 None (hold_running daq_ready)))
     = HOLD \<and>
   (\<exists>rest. daq_written (daq_controller
       (snd (update_stage (readings 150) 110.1 0 60 160 10 None (hold_running daq_ready))))
     = (0, 0) # rest)"
proof -
  have a: "is_running (hold_running daq_ready)" "current_stage (hold_running daq_ready) = HOLD"
    "flash_start_time (hold_running daq_ready) = Some 100"
    by (simp_all add: hold_running_def)
  have b: "outputs_accepted (hold_running daq_ready)"
    by (simp add: hold_running_def outputs_accepted_def daq_accepts_def keithley_ready_def
        DeviceController_init_def daq_ready_def ao_accepts_def keithley_idle_def
        keithley_accepts_def)
  show ?thesis
    using a b
      hold_limit_stops_run [OF a, where now = "109.9" and hold_time = 10 and env = "readings 150"
        and dwell_time = 0 and hold_current = 60 and climit = 160 and target_temperature = None]
      hold_limit_stops_run [OF a, where now = "110.1" and hold_time = 10 and env = "readings 150"
        and dwell_time = 0 and hold_current = 60 and climit = 160 and target_temperature = None]
    by simp
qed

text \<open>
  A run gets into stage HOLD with no DAQ output task: \<^verbatim>\<open>start_process\<close> only checks
  that the devices are connected, and \<^verbatim>\<open>apply_voltage_current_limits\<close> swallows the
  failed write.
\<close>

lemma hold_without_output_task_reachable:
  "is_running
     (snd (update_stage (readings 96) 101 0.5 60 100 10 None
       (snd (update_stage (readings 96) 100 0.5 60 100 10 None
         (snd (update_stage (readings 50) 1 0.5 60 100 10 None
           (snd (start_process True True 0 120 100
             (DeviceController_init daq_missing True (Some keithley_idle)))))))))) \<and>
   current_stage
     (snd (update_stage (readings 96) 101 0.5 60 100 10 None
       (snd (update_stage (readings 96) 100 0.5 60 100 10 None
         (snd (update_stage (readings 50) 1 0.5 60 100 10 None
           (snd (start_process True True 0 120 100
             (DeviceController_init daq_missing True (Some keithley_idle)))))))))) = HOLD \<and>
   flash_start_time
     (snd (update_stage (readings 96) 101 0.5 60 100 10 None
       (snd (update_stage (readings 96) 100 0.5 60 100 10 None
         (snd (update_stage (readings 50) 1 0.5 60 100 10 None
           (snd (start_process True True 0 120 100
             (DeviceController_init daq_missing True (Some keithley_idle)))))))))) = Some 100 \<and>
   hold_start_time
     (snd (update_stage (readings 96) 101 0.5 60 100 10 None
       (snd (update_stage (readings 96) 100 0.5 60 100 10 None
         (snd (update_stage (readings 50) 1 0.5 60 100 10 None
           (snd (start_process True True 0 120 100
             (DeviceController_init daq_missing True (Some keithley_idle)))))))))) = 101 \<and>
   daq_controller
     (snd (update_stage (readings 96) 101 0.5 60 100 10 None
       (snd (update_stage (readings 96) 100 0.5 60 100 10 None
         (snd (update_stage (readings 50) 1 0.5 60 100 10 None
           (snd (start_process True True 0 120 100
             (DeviceController_init daq_missing True (Some keithley_idle)))))))))) = daq_missing"
  by (simp add: readings_def keithley_idle_def daq_missing_def tick_defs flash_stage_def
      and_then_def start_process_def reset_cv_cc_tracking_def set_voltage_current_limits_def
      apply_voltage_current_limits_def daq_set_outputs_def k_write_def)

text \<open>
  C1. On the first HOLD tick whose elapsed time has reached the limit, the controller is
  to zero the outputs, stop the process and set \<open>experiment_stopped_by_hold_time\<close>.
  The code does not when the write is refused: \<^verbatim>\<open>update_stage\<close> calls
  \<^verbatim>\<open>self.set_outputs(0, 0)\<close> outside any \<^verbatim>\<open>try\<close>, before \<^verbatim>\<open>stop_process()\<close> and
  before the flag. With no DAQ output task, the tick at \<open>flash_start_time + 10.1\<close>
  under a limit of 10 raises \<^verbatim>\<open>RuntimeError\<close> out of \<^verbatim>\<open>update_stage\<close>: the process is
  still running in HOLD, the flag is not set, and the tick at t = 5000 raises in the same
  way. With only the source meter refusing, (0, 0) reaches the DAQ and the process is
  still running. On the same state \<^verbatim>\<open>stop_process\<close> returns normally with
  \<open>is_running\<close> false, and so does the tick of the SHUTDOWN branch, which stops the
  run through \<^verbatim>\<open>stop_process\<close> alone.
\<close>

theorem hold_limit_write_failure:
  "is_running (hold_running daq_missing) \<and> current_stage (hold_running daq_missing) = HOLD \<and>
   flash_start_time (hold_running daq_missing) = Some 100 \<and>
   fst (update_stage (readings 150) 110.1 0 60 160 10 None (hold_running daq_missing))
     = Some (RuntimeError ''DAQ not available - cannot set outputs'') \<and>
   is_running (snd (update_stage (readings 150) 110.1 0 60 160 10 None (hold_running daq_missing))) \<and>
   \<not> experiment_stopped_by_hold_time
       (snd (update_stage (readings 150) 110.1 0 60 160 10 None (hold_running daq_missing))) \<and>
   current_stage (snd (update_stage (readings 150) 110.1 0 60 160 10 None (hold_running daq_missing)))
     = HOLD \<and>
   fst (update_stage (readings 150) 5000 0 60 160 10 None
         (snd (update_stage (readings 150) 110.1 0 60 160 10 None (hold_running daq_missing))))
     = Some (RuntimeError ''DAQ not available - cannot set outputs'') \<and>
   is_running (snd (update_stage (readings 150) 5000 0 60 160 10 None
         (snd (update_stage (readings 150) 110.1 0 60 160 10 None (hold_running daq_missing))))) \<and>
   fst (update_stage (readings 150) 110.1 0 60 160 10 None
         ((hold_running daq_ready)\<lparr>keithley := Some \<lparr>k_written = [], k_faults = [True]\<rparr>\<rparr>))
     = Some DriverError \<and>
   daq_written (daq_controller (snd (update_stage (readings 150) 110.1 0 60 160 10 None
         ((hold_running daq_ready)\<lparr>keithley := Some \<lparr>k_written = [], k_faults = [True]\<rparr>\<rparr>))))
     = [(0, 0)] \<and>
   is_running (snd (update_stage (readings 150) 110.1 0 60 160 10 None
         ((hold_running daq_ready)\<lparr>keithley := Some \<lparr>k_written = [], k_faults = [True]\<rparr>\<rparr>))) \<and>
   fst (stop_process (hold_running daq_missing)) = None \<and>
   \<not> is_running (snd (stop_process (hold_running daq_missing))) \<and>
   fst (update_stage (readings 150) 200 0 60 160 10 None (shutdown_running daq_missing)) = None \<and>
   \<not> is_running
       (snd (update_stage (readings 150) 200 0 60 160 10 None (shutdown_running daq_missing)))"
proof -
  note defs = hold_running_def shutdown_running_def readings_def daq_missing_def daq_ready_def
      keithley_idle_def DeviceController_init_def update_stage_def get_measurements_def
      read_sample_voltage_improved_def read_keithley_current_improved_def update_stage_on_def
      detect_step_def detect_cv_cc_transition_def hold_stage_def shutdown_stage_def
      stop_process_def set_outputs_def daq_set_outputs_def ao_write_def k_write_def
      daq_written_def and_then_def try_except_def logger_def Let_def
      VOLTAGE_SCALE_OUTPUT_def CURRENT_SCALE_def
  have a: "is_running (hold_running daq_missing) \<and> current_stage (hold_running daq_missing) = HOLD \<and>
   flash_start_time (hold_running daq_missing) = Some 100"
    by (simp add: hold_running_def)
  have b: "fst (update_stage (readings 150) 110.1 0 60 160 10 None (hold_running daq_missing))
     = Some (RuntimeError ''DAQ not available - cannot set outputs'') \<and>
   is_running (snd (update_stage (readings 150) 110.1 0 60 160 10 None (hold_running daq_missing))) \<and>
   \<not> experiment_stopped_by_hold_time
       (snd (update_stage (readings 150) 110.1 0 60 160 10 None (hold_running daq_missing))) \<and>
   current_stage (snd (update_stage (readings 150) 110.1 0 60 160 10 None (hold_running daq_missing)))
     = HOLD"
    by (simp add: defs)
  have c: "fst (update_stage (readings 150) 5000 0 60 160 10 None
         (snd (update_stage (readings 150) 110.1 0 60 160 10 None (hold_running daq_missing))))
     = Some (RuntimeError ''DAQ not available - cannot set outputs'') \<and>
   is_running (snd (update_stage (readings 150) 5000 0 60 160 10 None
         (snd (update_stage (readings 150) 110.1 0 60 160 10 None (hold_running daq_missing)))))"
    by (simp add: defs)
  have d: "fst (update_stage (readings 150) 110.1 0 60 160 10 None
         ((hold_running daq_ready)\<lparr>keithley := Some \<lparr>k_written = [], k_faults = [True]\<rparr>\<rparr>))
     = Some DriverError \<and>
   daq_written (daq_controller (snd (update_stage (readings 150) 110.1 0 60 160 10 None
         ((hold_running daq_ready)\<lparr>keithley := Some \<lparr>k_written = [], k_faults = [True]\<rparr>\<rparr>))))
     = [(0, 0)] \<and>
   is_running (snd (update_stage (readings 150) 110.1 0 60 160 10 None
         ((hold_running daq_ready)\<lparr>keithley := Some \<lparr>k_written = [], k_faults = [True]\<rparr>\<rparr>)))"
    by (simp add: defs)
  have e: "fst (stop_process (hold_running daq_missing)) = None \<and>
   \<not> is_running (snd (stop_process (hold_running daq_missing)))"
    by (simp add: defs)
  have f: "fst (update_stage (readings 150) 200 0 60 160 10 None (shutdown_running daq_missing)) = None \<and>
   \<not> is_running
       (snd (update_stage (readings 150) 200 0 60 160 10 None (shutdown_running daq_missing)))"
    by (simp add: defs)
  show ?thesis
    using a b c d e f by blast
qed

subsection \<open>Flash onset\<close>

lemma update_timer_period_info:
  "fst e = INFO \<Longrightarrow>
   (e \<in> set (log (update_timer_period item s))) = (e \<in> set (log s))"
  by (cases e) (auto simp: update_timer_period_def logger_def split: prod.splits option.splits)

lemma fold_update_timer_period_info:
  "fst e = INFO \<Longrightarrow>
   (e \<in> set (log (fold update_timer_period config s))) = (e \<in> set (log s))"
  by (induction config arbitrary: s) (simp_all add: update_timer_period_info)

lemma update_timer_periods_for_stage_info:
  "fst e = INFO \<Longrightarrow>
   (e \<in> set (log (update_timer_periods_for_stage stg s))) = (e \<in> set (log s))"
  by (cases e)
    (auto simp: update_timer_periods_for_stage_def logger_def Let_def
        fold_update_timer_period_info split: option.splits)

lemma get_measurements_info:
  "fst e = INFO \<Longrightarrow>
   (e \<in> set (log (snd (get_measurements env s)))) = (e \<in> set (log s))"
  by (cases e)
    (auto simp: get_measurements_def read_sample_voltage_improved_def
        read_keithley_current_improved_def logger_def Let_def
      split: prod.splits option.splits if_splits)

lemma detect_step_threshold_msg:
  "(by_threshold_msg \<in> set (log (detect_step m now climit s))) = (by_threshold_msg \<in> set (log s))"
  by (auto simp: detect_step_def detect_cv_cc_transition_def logger_def Let_def
        by_threshold_msg_def
      split: prod.splits option.splits if_splits)

lemma incubation_by_transition:
  assumes "transition_trigger now s"
  shows "current_stage (snd (incubation_stage now v c climit s)) = FLASH"
    and "flash_start_time (snd (incubation_stage now v c climit s)) = Some now"
    and "by_transition_msg \<in> set (log (snd (incubation_stage now v c climit s)))"
    and "(by_threshold_msg \<in> set (log (snd (incubation_stage now v c climit s))))
           = (by_threshold_msg \<in> set (log s))"
  using assms
  by (auto simp: incubation_stage_def transition_trigger_def Let_def logger_def
        by_transition_msg_def by_threshold_msg_def update_timer_periods_for_stage_info
      split: option.splits)

lemma incubation_by_threshold:
  assumes "\<not> transition_trigger now s" "threshold_trigger c climit"
  shows "current_stage (snd (incubation_stage now v c climit s)) = FLASH"
    and "flash_start_time (snd (incubation_stage now v c climit s)) = Some now"
    and "by_threshold_msg \<in> set (log (snd (incubation_stage now v c climit s)))"
  using assms
  by (auto simp: incubation_stage_def transition_trigger_def threshold_trigger_def Let_def
        logger_def by_threshold_msg_def update_timer_periods_for_stage_info
      split: option.splits)

lemma incubation_stays:
  assumes "\<not> transition_trigger now s" "\<not> threshold_trigger c climit"
  shows "incubation_stage now v c climit s = (None, s)"
  using assms
  by (auto simp: incubation_stage_def transition_trigger_def threshold_trigger_def
      split: option.splits)

lemma update_stage_in_incubation:
  assumes "is_running s" "current_stage s = INCUBATION"
  shows "update_stage env now dt hc climit ht tt s =
           incubation_stage now (fst (fst (get_measurements env s)))
             (fst (snd (fst (get_measurements env s)))) climit
             (detect_step (fst (get_measurements env s)) now climit (snd (get_measurements env s)))"
proof -
  obtain voltage current temperature s0
    where g: "get_measurements env s = ((voltage, current, temperature), s0)"
    by (cases "get_measurements env s") auto
  have "current_stage s0 = current_stage (snd (get_measurements env s))"
    by (simp only: g snd_conv)
  then have c0: "current_stage s0 = INCUBATION"
    using assms by simp
  show ?thesis
    using assms c0 by (simp add: update_stage_def g update_stage_on_branch)
qed

text \<open>
  C3, amended. On a control tick of a running process in stage INCUBATION, after the
  detector has seen the tick's readings: when the mode is CC and the recorded CV-to-CC
  transition is less than 1.0 s old, the stage becomes FLASH with \<open>flash_start_time = now\<close>
  and the log says "triggered by CV->CC transition"; otherwise, when the current reading
  is present, non-zero and strictly greater than \<open>0.9 * current_limit\<close>, the stage
  becomes FLASH with \<open>flash_start_time = now\<close> by the threshold path; when both hold, the
  transition path is the one taken (the threshold message is not logged); when neither
  holds, the stage stays INCUBATION.
\<close>

theorem incubation_flash_onset:
  fixes s :: device_controller and env :: instruments
    and now dwell_time hold_current climit hold_time :: real
    and target_temperature :: "real option"
  assumes "is_running s" and "current_stage s = INCUBATION"
  defines "current \<equiv> fst (snd (fst (get_measurements env s)))"
    and "s1 \<equiv> detect_step (fst (get_measurements env s)) now climit (snd (get_measurements env s))"
    and "r \<equiv> update_stage env now dwell_time hold_current climit hold_time target_temperature s"
  shows
    "(transition_trigger now s1 \<longrightarrow>
        current_stage (snd r) = FLASH \<and> flash_start_time (snd r) = Some now \<and>
        by_transition_msg \<in> set (log (snd r)) \<and>
        (by_threshold_msg \<in> set (log (snd r)) \<longrightarrow> by_threshold_msg \<in> set (log s))) \<and>
     (\<not> transition_trigger now s1 \<and> threshold_trigger current climit \<longrightarrow>
        current_stage (snd r) = FLASH \<and> flash_start_time (snd r) = Some now \<and>
        by_threshold_msg \<in> set (log (snd r))) \<and>
     (\<not> transition_trigger now s1 \<and> \<not> threshold_trigger current climit \<longrightarrow>
        fst r = None \<and> current_stage (snd r) = INCUBATION \<and>
        flash_start_time (snd r) = flash_start_time s)"
proof -
  let ?v = "fst (fst (get_measurements env s))"
  have r: "r = incubation_stage now ?v current climit s1"
    unfolding r_def current_def s1_def using assms(1,2) by (rule update_stage_in_incubation)
  have "(by_threshold_msg \<in> set (log s1))
      = (by_threshold_msg \<in> set (log (snd (get_measurements env s))))"
    unfolding s1_def by (rule detect_step_threshold_msg)
  also have "\<dots> = (by_threshold_msg \<in> set (log s))"
    by (rule get_measurements_info) (simp add: by_threshold_msg_def)
  finally have l1: "(by_threshold_msg \<in> set (log s1)) = (by_threshold_msg \<in> set (log s))" .
  have st1: "current_stage s1 = INCUBATION" "flash_start_time s1 = flash_start_time s"
    using assms(2) by (simp_all add: s1_def)
  have a: "current_stage (snd r) = FLASH \<and> flash_start_time (snd r) = Some now \<and>
        by_transition_msg \<in> set (log (snd r)) \<and>
        (by_threshold_msg \<in> set (log (snd r)) \<longrightarrow> by_threshold_msg \<in> set (log s))"
    if "transition_trigger now s1"
    unfolding r using incubation_by_transition [OF that, of ?v current climit] l1 by simp
  have b: "current_stage (snd r) = FLASH \<and> flash_start_time (snd r) = Some now \<and>
        by_threshold_msg \<in> set (log (snd r))"
    if "\<not> transition_trigger now s1" "threshold_trigger current climit"
    unfolding r using incubation_by_threshold [OF that, of ?v] by simp
  have c: "fst r = None \<and> current_stage (snd r) = INCUBATION \<and>
        flash_start_time (snd r) = flash_start_time s"
    if "\<not> transition_trigger now s1" "\<not> threshold_trigger current climit"
    unfolding r using incubation_stays [OF that, of ?v] st1 by simp
  show ?thesis
    using a b c by blast
qed

theorem incubation_flash_onset_witness:
  "is_running incubation_running \<and> current_stage incubation_running = INCUBATION \<and>
   transition_trigger 50
     (detect_step (fst (get_measurements (readings 96) incubation_running)) 50 100
        (snd (get_measurements (readings 96) incubation_running))) \<and>
   threshold_trigger (fst (snd (fst (get_measurements (readings 96) incubation_running)))) 100 \<and>
   current_stage (snd (update_stage (readings 96) 50 0 60 100 10 None incubation_running)) = FLASH \<and>
   flash_start_time (snd (update_stage (readings 96) 50 0 60 100 10 None incubation_running))
     = Some 50 \<and>
   by_transition_msg
     \<in> set (log (snd (update_stage (readings 96) 50 0 60 100 10 None incubation_running))) \<and>
   by_threshold_msg
     \<notin> set (log (snd (update_stage (readings 96) 50 0 60 100 10 None incubation_running)))"
proof -
  have a: "is_running incubation_running" "current_stage incubation_running = INCUBATION"
    by (simp_all add: incubation_running_def)
  have t: "transition_trigger 50
     (detect_step (fst (get_measurements (readings 96) incubation_running)) 50 100
        (snd (get_measurements (readings 96) incubation_running)))"
    by (simp add: transition_trigger_def incubation_running_def readings_def keithley_idle_def
        tick_defs)
  have h: "threshold_trigger (fst (snd (fst (get_measurements (readings 96) incubation_running)))) 100"
    by (simp add: threshold_trigger_def incubation_running_def readings_def keithley_idle_def
        tick_defs)
  have l: "by_threshold_msg \<notin> set (log incubation_running)"
    by (simp add: incubation_running_def DeviceController_init_def)
  show ?thesis
    using a t h l
      incubation_flash_onset [OF a, where env = "readings 96" and now = 50 and climit = 100
        and dwell_time = 0 and hold_current = 60 and hold_time = 10 and target_temperature = None]
    by blast
qed

text \<open>How a run gets into the state \<open>incubation_reverted\<close>.\<close>

lemma incubation_reverted_reachable:
  "current_stage (snd (update_stage (readings 70) 49.9 49.8 60 100 10 None
      (snd (update_stage (readings 96) 49.7 49.8 60 100 10 None
        (snd (start_process True True 0 120 100
          (DeviceController_init daq_ready True (Some keithley_idle)))))))) = INCUBATION \<and>
   power_supply_mode (snd (update_stage (readings 70) 49.9 49.8 60 100 10 None
      (snd (update_stage (readings 96) 49.7 49.8 60 100 10 None
        (snd (start_process True True 0 120 100
          (DeviceController_init daq_ready True (Some keithley_idle)))))))) = CV \<and>
   cv_cc_transition_time (snd (update_stage (readings 70) 49.9 49.8 60 100 10 None
      (snd (update_stage (readings 96) 49.7 49.8 60 100 10 None
        (snd (start_process True True 0 120 100
          (DeviceController_init daq_ready True (Some keithley_idle)))))))) = Some 49.7 \<and>
   is_running (snd (update_stage (readings 70) 49.9 49.8 60 100 10 None
      (snd (update_stage (readings 96) 49.7 49.8 60 100 10 None
        (snd (start_process True True 0 120 100
          (DeviceController_init daq_ready True (Some keithley_idle))))))))"
  by (simp add: readings_def keithley_idle_def daq_ready_def tick_defs start_process_def
      reset_cv_cc_tracking_def set_voltage_current_limits_def apply_voltage_current_limits_def
      daq_set_outputs_def ao_write_def k_write_def VOLTAGE_SCALE_OUTPUT_def CURRENT_SCALE_def)

text \<open>
  C3 as stated fails in two ways. A current of exactly \<open>0.9 * current_limit\<close> (90 mA
  under a limit of 100 mA) does not open the FLASH stage: the comparison is strict. And a
  CV-to-CC transition reported 0.3 s ago does not open it once the mode is back to CV.
\<close>

theorem incubation_threshold_is_strict:
  "is_running incubation_running \<and> current_stage incubation_running = INCUBATION \<and>
   fst (snd (fst (get_measurements (readings 90) incubation_running))) = Some 90 \<and>
   (90::real) \<ge> 0.9 * 100 \<and>
   current_stage (snd (update_stage (readings 90) 50 0 60 100 10 None incubation_running))
     = INCUBATION \<and>
   is_running incubation_reverted \<and> current_stage incubation_reverted = INCUBATION \<and>
   cv_cc_transition_time incubation_reverted = Some 49.7 \<and>
   (50::real) - 49.7 < 1.0 \<and>
   current_stage (snd (update_stage (readings 70) 50 0 60 100 10 None incubation_reverted))
     = INCUBATION"
  by (simp add: incubation_running_def incubation_reverted_def readings_def keithley_idle_def
      tick_defs)

subsection \<open>Failed reads\<close>

lemma detect_step_without_current: "detect_step (v, None, t) now climit s = s"
  by (simp add: detect_step_def split: option.splits)

lemma flash_stage_without_current:
  "current_stage (snd (flash_stage now None climit s)) = current_stage s"
  by (simp add: flash_stage_def and_then_def split: option.splits)

lemma get_measurements_shape:
  "\<exists>v c. fst (get_measurements env s) = (Some v, c, Some (last_temperature s))"
  by (auto simp: get_measurements_def read_sample_voltage_improved_def
        read_keithley_current_improved_def logger_def Let_def
      split: prod.splits option.splits if_splits)

lemma transition_trigger_cong:
  "power_supply_mode s' = power_supply_mode s \<Longrightarrow>
   cv_cc_transition_time s' = cv_cc_transition_time s \<Longrightarrow>
   transition_trigger now s' = transition_trigger now s"
  by (simp add: transition_trigger_def)

lemma get_measurements_voltage:
  "fst (fst (get_measurements env s)) =
     Some (case daq_samples env of
             None \<Rightarrow> 0
           | Some raw \<Rightarrow> if raw = [] then 0 else 300 / 5 * (sum_list raw / real (length raw)))"
  by (auto simp: get_measurements_def read_sample_voltage_improved_def
        read_keithley_current_improved_def logger_def Let_def
      split: prod.splits option.splits if_splits)

lemma get_measurements_current:
  "fst (snd (fst (get_measurements env s))) =
     (if pyvisa_available s \<and> keithley s \<noteq> None
      then (case keithley_ua env of None \<Rightarrow> None | Some current_ua \<Rightarrow> Some (current_ua / 1000))
      else None)"
  by (auto simp: get_measurements_def read_sample_voltage_improved_def
        read_keithley_current_improved_def logger_def Let_def
      split: prod.splits option.splits if_splits)

lemma dwell_stage_advances_when_due:
  "\<not> truthy tt \<or> temperature_reached s \<Longrightarrow> dt < ct \<Longrightarrow>
   current_stage (snd (dwell_stage ct dt tt temp s)) = INCUBATION"
  by (auto simp: dwell_stage_def Let_def logger_def)

lemma dwell_stage_voltage_before_cc:
  "voltage_before_cc (snd (dwell_stage ct dt tt temp s)) = voltage_before_cc s"
  by (simp add: dwell_stage_def Let_def logger_def)

lemma incubation_stage_voltage_before_cc:
  "voltage_before_cc (snd (incubation_stage now v c climit s)) = voltage_before_cc s"
  by (simp add: incubation_stage_def Let_def logger_def split: option.splits)

lemma flash_stage_voltage_before_cc:
  "voltage_before_cc (snd (flash_stage now c climit s)) = voltage_before_cc s"
  by (cases "last_flash_log_time s"; cases c)
    (auto simp: flash_stage_def and_then_def Let_def logger_def split: option.splits)

lemma shutdown_stage_voltage_before_cc:
  "voltage_before_cc (snd (shutdown_stage now hc s)) = voltage_before_cc s"
  by (simp add: shutdown_stage_def Let_def logger_def)

lemma hold_stage_voltage_before_cc:
  "voltage_before_cc (snd (hold_stage now hold_time s)) = voltage_before_cc s"
proof -
  have a: "\<And>x. voltage_before_cc (snd (and_then (set_outputs 0 0 x)
        (\<lambda>s8. and_then (stop_process s8)
           (\<lambda>s9. (None, s9\<lparr>experiment_stopped_by_hold_time := True\<rparr>))))) = voltage_before_cc x"
  proof -
    fix x
    obtain r s8 where e: "set_outputs 0 0 x = (r, s8)"
      by (cases "set_outputs 0 0 x")
    have "voltage_before_cc s8 = voltage_before_cc (snd (set_outputs 0 0 x))"
      by (simp only: e snd_conv)
    then have c8: "voltage_before_cc s8 = voltage_before_cc x"
      by simp
    obtain q s9 where f: "stop_process s8 = (q, s9)"
      by (cases "stop_process s8")
    have "voltage_before_cc s9 = voltage_before_cc (snd (stop_process s8))"
      by (simp only: f snd_conv)
    then have c9: "voltage_before_cc s9 = voltage_before_cc s8"
      by simp
    show "voltage_before_cc (snd (and_then (set_outputs 0 0 x)
        (\<lambda>s8. and_then (stop_process s8)
           (\<lambda>s9. (None, s9\<lparr>experiment_stopped_by_hold_time := True\<rparr>))))) = voltage_before_cc x"
      using c8 c9 by (cases r; cases q) (simp_all add: and_then_def e f)
  qed
  show ?thesis
    by (auto simp: hold_stage_def Let_def a logger_def split: option.splits)
qed

lemma update_stage_on_voltage_before_cc:
  "voltage_before_cc (snd (update_stage_on (v, c, t) now dt hc climit ht tt s))
     = voltage_before_cc (detect_step (v, c, t) now climit s)"
  by (cases "current_stage s")
    (simp_all add: update_stage_on_branch dwell_stage_voltage_before_cc
      incubation_stage_voltage_before_cc flash_stage_voltage_before_cc
      hold_stage_voltage_before_cc shutdown_stage_voltage_before_cc)

lemma detect_step_records_voltage:
  "power_supply_mode s = CV \<Longrightarrow> 0.95 * climit \<le> c \<Longrightarrow>
   voltage_before_cc (detect_step (Some v, Some c, t) now climit s) = Some v"
  by (simp add: detect_step_def detect_cv_cc_transition_def logger_def Let_def)

text \<open>
  C5, amended. On a control tick of a running process on which the current read fails,
  the stage logic gets \<open>None\<close> for the current (what this tick's read gave, never an
  older value), the detector is not run, and no stage change that needs the current
  happens: FLASH stays FLASH, and INCUBATION stays INCUBATION, the tick returning the state
  as the reads left it, unless the mode is CC with a CV-to-CC transition recorded less
  than 1.0 s ago. The tick is not skipped: the stage logic that does not need the current
  still runs, so in DWELL, once the dwell time has passed and no target temperature is
  still awaited, the stage advances to INCUBATION. On every control tick of a running
  process, whatever the current read did, a failed voltage read (or an empty list of
  samples) is replaced by 0.0 V, and a raw reading is never rejected for its range: the
  mean of the samples is scaled by 300 / 5. That value is the one the tick uses: it is
  passed to the stage logic and, when the current read succeeded, to the detector, which
  on a CV-to-CC transition (mode CV, current at least \<open>0.95 * current_limit\<close>) stores
  it as \<open>voltage_before_cc\<close>.
\<close>

theorem failed_reads:
  fixes s :: device_controller and env :: instruments
    and now dwell_time hold_current climit hold_time c :: real
    and target_temperature :: "real option"
  assumes "is_running s"
  defines "r \<equiv> update_stage env now dwell_time hold_current climit hold_time target_temperature s"
    and "voltage \<equiv> fst (fst (get_measurements env s))"
    and "current \<equiv> fst (snd (fst (get_measurements env s)))"
    and "s0 \<equiv> snd (get_measurements env s)"
  shows
    "r = update_stage_on (voltage, current, Some (last_temperature s)) now dwell_time hold_current
           climit hold_time target_temperature s0 \<and>
     current = (if pyvisa_available s \<and> keithley s \<noteq> None
                then (case keithley_ua env of
                        None \<Rightarrow> None
                      | Some current_ua \<Rightarrow> Some (current_ua / 1000))
                else None) \<and>
     (current = None \<longrightarrow>
        detect_step (voltage, current, Some (last_temperature s)) now climit s0 = s0 \<and>
        (current_stage s = FLASH \<longrightarrow> current_stage (snd r) = FLASH) \<and>
        (current_stage s = INCUBATION \<and> \<not> transition_trigger now s \<longrightarrow> r = (None, s0)) \<and>
        (current_stage s = DWELL \<and> dwell_time < now - start_time s \<and>
         (\<not> truthy target_temperature \<or> temperature_reached s) \<longrightarrow>
           current_stage (snd r) = INCUBATION)) \<and>
     voltage = Some (case daq_samples env of
                       None \<Rightarrow> 0
                     | Some raw \<Rightarrow>
                         if raw = [] then 0
                         else 300 / 5 * (sum_list raw / real (length raw))) \<and>
     (current = Some c \<and> power_supply_mode s = CV \<and> 0.95 * climit \<le> c \<longrightarrow>
        voltage_before_cc (snd r) = voltage)"
proof -
  obtain v c' where sh: "fst (get_measurements env s) = (Some v, c', Some (last_temperature s))"
    using get_measurements_shape by blast
  have v: "voltage = Some v" and c': "current = c'"
    by (simp_all add: voltage_def current_def sh)
  have r: "r = update_stage_on (voltage, current, Some (last_temperature s)) now dwell_time
        hold_current climit hold_time target_temperature s0"
    unfolding r_def s0_def using update_stage_running [OF assms(1)] by (simp add: sh v c')
  have cur: "current = (if pyvisa_available s \<and> keithley s \<noteq> None
                then (case keithley_ua env of
                        None \<Rightarrow> None
                      | Some current_ua \<Rightarrow> Some (current_ua / 1000))
                else None)"
    unfolding current_def by (rule get_measurements_current)
  have vol: "voltage = Some (case daq_samples env of
                       None \<Rightarrow> 0
                     | Some raw \<Rightarrow>
                         if raw = [] then 0
                         else 300 / 5 * (sum_list raw / real (length raw)))"
    unfolding voltage_def by (rule get_measurements_voltage)
  note u = update_stage_on_branch [of voltage None "Some (last_temperature s)" now dwell_time
      hold_current climit hold_time target_temperature s0]
  have d: "detect_step (voltage, None, Some (last_temperature s)) now climit s0 = s0"
    by (rule detect_step_without_current)
  have st0: "current_stage s0 = current_stage s" "start_time s0 = start_time s"
    "temperature_reached s0 = temperature_reached s" "power_supply_mode s0 = power_supply_mode s"
    by (simp_all add: s0_def)
  have fl: "current_stage (snd r) = FLASH" if "current = None" "current_stage s = FLASH"
    using that by (simp add: r u d st0 flash_stage_without_current)
  have tr: "transition_trigger now s0 = transition_trigger now s"
    by (rule transition_trigger_cong) (simp_all add: s0_def)
  have inc: "r = (None, s0)"
    if "current = None" "current_stage s = INCUBATION" "\<not> transition_trigger now s"
  proof -
    have "incubation_stage now voltage None climit s0 = (None, s0)"
      by (rule incubation_stays) (simp_all add: tr that(3) threshold_trigger_def)
    then show ?thesis
      using that(1,2) by (simp add: r u d st0)
  qed
  have dw: "current_stage (snd r) = INCUBATION"
    if "current = None" "current_stage s = DWELL" "dwell_time < now - start_time s"
      "\<not> truthy target_temperature \<or> temperature_reached s"
  proof -
    have "current_stage (snd (dwell_stage (now - start_time s0) dwell_time target_temperature
        (Some (last_temperature s)) s0)) = INCUBATION"
      by (rule dwell_stage_advances_when_due) (use that(3,4) in \<open>simp_all add: st0\<close>)
    then show ?thesis
      using that(1,2) by (simp add: r u d st0)
  qed
  have d': "detect_step (voltage, current, Some (last_temperature s)) now climit s0 = s0"
    if "current = None"
    using d that by simp
  have used: "voltage_before_cc (snd r) = voltage"
    if "current = Some c" "power_supply_mode s = CV" "0.95 * climit \<le> c"
  proof -
    have "voltage_before_cc (snd r)
        = voltage_before_cc (detect_step (voltage, current, Some (last_temperature s)) now climit s0)"
      unfolding r by (rule update_stage_on_voltage_before_cc)
    also have "\<dots> = Some v"
      unfolding v that(1)
      by (rule detect_step_records_voltage) (use that(2,3) in \<open>simp_all add: st0\<close>)
    finally show ?thesis
      by (simp add: v)
  qed
  show ?thesis
    using r cur vol d' fl inc dw used by blast
qed

theorem failed_reads_witness:
  "is_running dwell_running \<and> current_stage dwell_running = DWELL \<and>
   fst (snd (fst (get_measurements readings_failed dwell_running))) = None \<and>
   (5::real) < 10 - start_time dwell_running \<and> \<not> truthy None \<and>
   current_stage (snd (update_stage readings_failed 10 5 60 100 10 None dwell_running))
     = INCUBATION \<and>
   fst (fst (get_measurements readings_failed dwell_running)) = Some 0 \<and>
   fst (snd (fst (get_measurements readings_out_of_range dwell_running))) = Some 96 \<and>
   power_supply_mode dwell_running = CV \<and> (0.95::real) * 100 \<le> 96 \<and>
   fst (fst (get_measurements readings_out_of_range dwell_running)) = Some (-120) \<and>
   voltage_before_cc
     (snd (update_stage readings_out_of_range 10 5 60 100 10 None dwell_running))
     = Some (-120) \<and>
   is_running incubation_running \<and> current_stage incubation_running = INCUBATION \<and>
   \<not> transition_trigger 50 incubation_running \<and>
   fst (snd (fst (get_measurements readings_failed incubation_running))) = None \<and>
   update_stage readings_failed 50 0 60 100 10 None incubation_running
     = (None, snd (get_measurements readings_failed incubation_running)) \<and>
   is_running (incubation_running\<lparr>current_stage := FLASH\<rparr>) \<and>
   fst (snd (fst (get_measurements readings_failed
     (incubation_running\<lparr>current_stage := FLASH\<rparr>)))) = None \<and>
   current_stage (snd (update_stage readings_failed 50 0 60 100 10 None
     (incubation_running\<lparr>current_stage := FLASH\<rparr>))) = FLASH"
proof -
  have a1: "is_running dwell_running"
    by (simp add: dwell_running_def)
  have b1: "current_stage dwell_running = DWELL" "(5::real) < 10 - start_time dwell_running"
    "\<not> truthy None" "power_supply_mode dwell_running = CV" "(0.95::real) * 100 \<le> 96"
    by (simp_all add: dwell_running_def DeviceController_init_def)
  have n1: "fst (snd (fst (get_measurements readings_failed dwell_running))) = None"
    by (simp add: dwell_running_def readings_failed_def keithley_idle_def tick_defs)
  have n2: "fst (snd (fst (get_measurements readings_out_of_range dwell_running))) = Some 96"
    by (simp add: dwell_running_def readings_out_of_range_def keithley_idle_def tick_defs)
  have a3: "is_running incubation_running"
    by (simp add: incubation_running_def)
  have b3: "current_stage incubation_running = INCUBATION"
    "\<not> transition_trigger 50 incubation_running"
    by (simp_all add: incubation_running_def DeviceController_init_def transition_trigger_def)
  have n3: "fst (snd (fst (get_measurements readings_failed incubation_running))) = None"
    by (simp add: incubation_running_def readings_failed_def keithley_idle_def tick_defs)
  have a4: "is_running (incubation_running\<lparr>current_stage := FLASH\<rparr>)"
    by (simp add: incubation_running_def)
  have b4: "current_stage (incubation_running\<lparr>current_stage := FLASH\<rparr>) = FLASH"
    by simp
  have n4: "fst (snd (fst (get_measurements readings_failed
     (incubation_running\<lparr>current_stage := FLASH\<rparr>)))) = None"
    by (simp add: incubation_running_def readings_failed_def keithley_idle_def tick_defs)
  note t1 = failed_reads [OF a1, where env = readings_failed and now = 10 and dwell_time = 5
      and hold_current = 60 and climit = 100 and hold_time = 10 and target_temperature = None
      and c = 96]
  note t2 = failed_reads [OF a1, where env = readings_out_of_range and now = 10
      and dwell_time = 5 and hold_current = 60 and climit = 100 and hold_time = 10
      and target_temperature = None and c = 96]
  note t3 = failed_reads [OF a3, where env = readings_failed and now = 50 and dwell_time = 0
      and hold_current = 60 and climit = 100 and hold_time = 10 and target_temperature = None
      and c = 96]
  note t4 = failed_reads [OF a4, where env = readings_failed and now = 50 and dwell_time = 0
      and hold_current = 60 and climit = 100 and hold_time = 10 and target_temperature = None
      and c = 96]
  have c1: "current_stage (snd (update_stage readings_failed 10 5 60 100 10 None dwell_running))
     = INCUBATION"
    using t1 b1 n1 by blast
  have v1: "fst (fst (get_measurements readings_failed dwell_running)) = Some 0"
    using t1 [THEN conjunct2, THEN conjunct2, THEN conjunct2, THEN conjunct1]
    by (simp add: readings_failed_def)
  have v2: "fst (fst (get_measurements readings_out_of_range dwell_running)) = Some (-120)"
    using t2 [THEN conjunct2, THEN conjunct2, THEN conjunct2, THEN conjunct1]
    by (simp add: readings_out_of_range_def)
  have "voltage_before_cc
     (snd (update_stage readings_out_of_range 10 5 60 100 10 None dwell_running))
     = fst (fst (get_measurements readings_out_of_range dwell_running))"
    using t2 b1 n2 by blast
  then have c2: "voltage_before_cc
     (snd (update_stage readings_out_of_range 10 5 60 100 10 None dwell_running))
     = Some (-120)"
    by (simp only: v2)
  have c3: "update_stage readings_failed 50 0 60 100 10 None incubation_running
     = (None, snd (get_measurements readings_failed incubation_running))"
    using t3 b3 n3 by blast
  have c4: "current_stage (snd (update_stage readings_failed 50 0 60 100 10 None
     (incubation_running\<lparr>current_stage := FLASH\<rparr>))) = FLASH"
    using t4 b4 n4 by blast
  show ?thesis
    using a1 b1 n1 c1 v1 n2 v2 c2 a3 b3 n3 c3 a4 n4 c4 by blast
qed

text \<open>
  C5 as stated fails: with both reads failing, a tick in DWELL past the dwell time
  advances the stage to INCUBATION; with only the voltage read failing, the substituted
  0.0 V reaches the detector, which records it as \<open>voltage_before_cc\<close>; and a raw
  reading of -2 V is not rejected but reaches the detector as -120 V.
\<close>

theorem failed_read_tick_not_skipped:
  "daq_samples readings_failed = None \<and> keithley_ua readings_failed = None \<and>
   is_running dwell_running \<and> current_stage dwell_running = DWELL \<and>
   current_stage (snd (update_stage readings_failed 10 5 60 100 10 None dwell_running)) = INCUBATION \<and>
   daq_samples readings_voltage_failed = None \<and>
   voltage_before_cc dwell_running = None \<and>
   voltage_before_cc (snd (update_stage readings_voltage_failed 10 5 60 100 10 None dwell_running))
     = Some 0 \<and>
   daq_samples readings_out_of_range = Some [-2, -2] \<and>
   voltage_before_cc (snd (update_stage readings_out_of_range 10 5 60 100 10 None dwell_running))
     = Some (-120)"
  by (simp add: dwell_running_def readings_failed_def readings_voltage_failed_def
      readings_out_of_range_def keithley_idle_def tick_defs)

subsection \<open>The timer loop\<close>

lemma timer_loop_stopped:
  "\<not> running (manager w) \<Longrightarrow> timer_loop fuel run name w = Some (None, w)"
  by (simp add: timer_loop.simps)

lemma update_period_takes_effect:
  "map_of (timers tm) name = Some old_period \<Longrightarrow>
   map_of (timers (update_period name new_period tm)) name = Some new_period"
  by (simp add: update_period_def update_conv')

lemmas manager_defs =
  control_manager_def late_manager_def start_all_def start_timer_def add_timer_def
  stop_timer_def TimerManager_init_def update_period_def

text \<open>
  C8. One iteration of a timer's loop while \<open>running\<close> is set: it reads the clock,
  calls the callback, and sleeps for \<open>max 0 (period - elapsed)\<close>, where \<open>period\<close> is
  the timer's period as the manager holds it after the callback and \<open>elapsed\<close> is the
  time the callback took. The iteration returns normally whether or not the callback
  raised; a raised exception is printed, and the world after the iteration is the one the
  callback left, with the clock moved on by the sleep. The loop then goes on from that
  world with the next iteration, and returns there when the callback cleared
  \<open>running\<close>. \<^verbatim>\<open>update_period\<close> on a registered timer makes the new period the one
  the loop reads next.
\<close>

theorem timer_loop_iteration:
  fixes w w' :: "'a world"
  assumes "running (manager w)"
    and "map_of (callbacks (manager w)) name = Some cb"
    and "run cb w = (outcome, w')"
    and "map_of (timers (manager w')) name = Some period"
  defines "w2 \<equiv>
    \<lparr>clock = clock w' + max 0 (period - (clock w' - clock w)),
     manager = manager w',
     stdout = (case outcome of None \<Rightarrow> stdout w' | Some e \<Rightarrow> (name, e) # stdout w'),
     app = app w'\<rparr>"
  shows "timer_iteration run name w = (None, w2) \<and>
         timer_loop (Suc fuel) run name w = timer_loop fuel run name w2 \<and>
         (\<not> running (manager w') \<longrightarrow> timer_loop (Suc fuel) run name w = Some (None, w2)) \<and>
         (map_of (timers tm) name = Some old_period \<longrightarrow>
            map_of (timers (update_period name new_period tm)) name = Some new_period)"
proof -
  define w1 where "w1 = (case outcome of None \<Rightarrow> w' | Some e \<Rightarrow> w'\<lparr>stdout := (name, e) # stdout w'\<rparr>)"
  have rc: "run_callback run name w = w1"
    by (cases outcome) (simp_all add: run_callback_def assms(2,3) w1_def)
  have m1: "manager w1 = manager w'" and c1: "clock w1 = clock w'"
    by (cases outcome; simp add: w1_def)+
  have sl: "time_sleep (max 0 (period - (clock w' - clock w))) w1 = w2"
    by (cases outcome) (simp_all add: time_sleep_def w1_def w2_def)
  have z: "time_sleep 0 w1 = w1"
    by (simp add: time_sleep_def)
  have body: "timer_iteration run name w =
      (None, if 0 < max 0 (period - (clock w' - clock w))
             then time_sleep (max 0 (period - (clock w' - clock w))) w1 else w1)"
    unfolding timer_iteration_def Let_def rc m1 c1 assms(4) by simp
  have fin: "(if 0 < max 0 (period - (clock w' - clock w))
             then time_sleep (max 0 (period - (clock w' - clock w))) w1 else w1) = w2"
  proof (cases "0 < max 0 (period - (clock w' - clock w))")
    case True
    then show ?thesis
      by (simp only: if_True sl)
  next
    case False
    then have e: "max 0 (period - (clock w' - clock w)) = 0"
      by (simp add: max_def split: if_splits)
    have "w1 = w2"
      using sl z by (simp only: e)
    then show ?thesis
      using False by (simp only: if_False)
  qed
  have it: "timer_iteration run name w = (None, w2)"
    by (simp only: body fin)
  have step: "timer_loop (Suc fuel) run name w = timer_loop fuel run name w2"
    using assms(1) by (subst timer_loop.simps) (simp add: it)
  have stop: "timer_loop (Suc fuel) run name w = Some (None, w2)" if "\<not> running (manager w')"
  proof -
    have "\<not> running (manager w2)"
      using that by (simp add: w2_def)
    then show ?thesis
      using step by (simp add: timer_loop_stopped)
  qed
  show ?thesis
    using it step stop update_period_takes_effect by blast
qed

theorem timer_loop_iteration_witness:
  "running (manager (world_at 1000 control_manager)) \<and>
   map_of (callbacks (manager (world_at 1000 control_manager))) ''control''
     = Some control_timer_callback \<and>
   timer_iteration stopping_callback ''control'' (world_at 1000 control_manager)
     = (None,
        \<lparr>clock = 1000.2,
         manager = \<lparr>timers = [(''control'', 0.2)], running = True,
                    threads = [(''control'', Some (Thread ''control'' True))],
                    callbacks = [(''control'', control_timer_callback)]\<rparr>,
         stdout = [(''control'', ValueError ''callback failed'')], app = ()\<rparr>) \<and>
   timer_loop (Suc (Suc 0)) stopping_callback ''control'' (world_at 1000 control_manager)
     = Some (None,
        \<lparr>clock = 1000.4,
         manager = \<lparr>timers = [(''control'', 0.2)], running = False,
                    threads = [(''control'', Some (Thread ''control'' True))],
                    callbacks = [(''control'', control_timer_callback)]\<rparr>,
         stdout = [(''control'', ValueError ''callback failed''),
                   (''control'', ValueError ''callback failed'')], app = ()\<rparr>)"
proof -
  let ?w = "world_at 1000 control_manager"
  let ?m1 = "\<lparr>timers = [(''control'', 0.2::real)], running = True,
                    threads = [(''control'', Some (Thread ''control'' True))],
                    callbacks = [(''control'', control_timer_callback)]\<rparr>"
  let ?m2 = "\<lparr>timers = [(''control'', 0.2::real)], running = False,
                    threads = [(''control'', Some (Thread ''control'' True))],
                    callbacks = [(''control'', control_timer_callback)]\<rparr>"
  let ?w' = "\<lparr>clock = 1000.03, manager = ?m1, stdout = [], app = ()\<rparr> :: unit world"
  let ?w2 = "\<lparr>clock = 1000.2, manager = ?m1,
      stdout = [(''control'', ValueError ''callback failed'')], app = ()\<rparr> :: unit world"
  let ?w2' = "\<lparr>clock = 1000.23, manager = ?m2,
      stdout = [(''control'', ValueError ''callback failed'')], app = ()\<rparr> :: unit world"
  have a: "running (manager ?w)"
    by (simp add: world_at_def manager_defs)
  have b: "map_of (callbacks (manager ?w)) ''control'' = Some control_timer_callback"
    by (simp add: world_at_def manager_defs)
  have c: "stopping_callback control_timer_callback ?w = (Some (ValueError ''callback failed''), ?w')"
    by (simp add: stopping_callback_def world_at_def manager_defs)
  have d: "map_of (timers (manager ?w')) ''control'' = Some 0.2"
    by simp
  note t1 = timer_loop_iteration [where run = stopping_callback and fuel = "Suc 0", OF a b c d]
  have i1: "timer_iteration stopping_callback ''control'' ?w = (None, ?w2)"
    using t1 [THEN conjunct1] by (simp add: world_at_def)
  have l1: "timer_loop (Suc (Suc 0)) stopping_callback ''control'' ?w
      = timer_loop (Suc 0) stopping_callback ''control'' ?w2"
    using t1 [THEN conjunct2, THEN conjunct1] by (simp add: world_at_def)
  have a2: "running (manager ?w2)"
    by simp
  have b2: "map_of (callbacks (manager ?w2)) ''control'' = Some control_timer_callback"
    by simp
  have c2: "stopping_callback control_timer_callback ?w2
      = (Some (ValueError ''callback failed''), ?w2')"
    by (simp add: stopping_callback_def update_period_def)
  have d2: "map_of (timers (manager ?w2')) ''control'' = Some 0.2"
    by simp
  have n2: "\<not> running (manager ?w2')"
    by simp
  note t2 = timer_loop_iteration [where run = stopping_callback and fuel = 0, OF a2 b2 c2 d2]
  have l2: "timer_loop (Suc 0) stopping_callback ''control'' ?w2
      = Some (None, \<lparr>clock = 1000.4, manager = ?m2,
         stdout = [(''control'', ValueError ''callback failed''),
                   (''control'', ValueError ''callback failed'')], app = ()\<rparr>)"
    using t2 [THEN conjunct2, THEN conjunct2, THEN conjunct1] n2 by simp
  show ?thesis
    using a b i1 l1 l2 by simp
qed

subsection \<open>Stopping one timer\<close>

text \<open>
  C10, amended. For every timer whose thread has been started (\<^verbatim>\<open>threads[name]\<close> is not
  \<^verbatim>\<open>None\<close>), \<^verbatim>\<open>stop_timer(name)\<close> clears the one \<open>running\<close> flag all timers share, so
  the loop of every timer, not only the named one, ends at its next check of the flag.
  For a timer that is registered but has no thread, \<^verbatim>\<open>stop_timer(name)\<close> changes nothing.
\<close>

theorem stop_timer_clears_shared_flag:
  "(map_of (threads tm) name = Some (Some th) \<longrightarrow>
      \<not> running (stop_timer name tm) \<and>
      timers (stop_timer name tm) = timers tm \<and>
      map_of (threads (stop_timer name tm)) name = Some None \<and>
      (manager w = stop_timer name tm \<longrightarrow> timer_loop fuel run other w = Some (None, w))) \<and>
   (map_of (threads tm) name = Some None \<or> map_of (threads tm) name = None \<longrightarrow>
      stop_timer name tm = tm)"
proof -
  have a: "\<not> running (stop_timer name tm) \<and>
      timers (stop_timer name tm) = timers tm \<and>
      map_of (threads (stop_timer name tm)) name = Some None"
    if "map_of (threads tm) name = Some (Some th)"
    using that by (simp add: stop_timer_def update_conv')
  have b: "timer_loop fuel run other w = Some (None, w)"
    if "map_of (threads tm) name = Some (Some th)" "manager w = stop_timer name tm"
    using a [OF that(1)] that(2) by (simp add: timer_loop_stopped)
  have c: "stop_timer name tm = tm"
    if "map_of (threads tm) name = Some None \<or> map_of (threads tm) name = None"
    using that by (auto simp: stop_timer_def)
  show ?thesis
    using a b c by blast
qed

theorem stop_timer_clears_shared_flag_witness:
  "map_of (threads late_manager) ''control'' = Some (Some (Thread ''control'' True)) \<and>
   running late_manager \<and>
   \<not> running (stop_timer ''control'' late_manager) \<and>
   timer_loop 5 failing_callback ''data'' (world_at 7 (stop_timer ''control'' late_manager))
     = Some (None, world_at 7 (stop_timer ''control'' late_manager)) \<and>
   map_of (threads late_manager) ''data'' = Some None \<and>
   stop_timer ''data'' late_manager = late_manager"
proof -
  have a: "map_of (threads late_manager) ''control'' = Some (Some (Thread ''control'' True))"
    by (simp add: manager_defs)
  have b: "map_of (threads late_manager) ''data'' = Some None"
    by (simp add: manager_defs)
  have c: "running late_manager"
    by (simp add: manager_defs)
  have m: "manager (world_at 7 (stop_timer ''control'' late_manager))
      = stop_timer ''control'' late_manager"
    by (simp add: world_at_def)
  show ?thesis
    using a b c m
      stop_timer_clears_shared_flag [where tm = late_manager and name = "''control''"
        and th = "Thread ''control'' True"
        and w = "world_at 7 (stop_timer ''control'' late_manager)" and fuel = 5
        and run = failing_callback and other = "''data''"]
      stop_timer_clears_shared_flag [where tm = late_manager and name = "''data''"
        and th = "Thread ''control'' True"
        and w = "world_at 7 (stop_timer ''control'' late_manager)" and fuel = 5
        and run = failing_callback and other = "''data''"]
    by blast
qed

text \<open>
  C10 as stated fails for a registered timer without a thread: after \<^verbatim>\<open>start_all()\<close>
  and one more \<^verbatim>\<open>add_timer("data", ...)\<close>, \<^verbatim>\<open>stop_timer("data")\<close> leaves \<open>running\<close>
  set and the control timer's thread in place.
\<close>

theorem stop_timer_unstarted_keeps_running:
  "map_of (timers late_manager) ''data'' = Some 0.1 \<and>
   running late_manager \<and>
   running (stop_timer ''data'' late_manager) \<and>
   map_of (threads (stop_timer ''data'' late_manager)) ''control''
     = Some (Some (Thread ''control'' True))"
  by (simp add: manager_defs)

end
